theory Spec2Isabelle
  imports Main "HOL-Library.Word"
begin

section \<open>The text area handler of the editor (textAreaHandler.ts)\<close>

text \<open>
  The handler sits between a native textarea and the editor. It listens to the
  textarea's keyboard, composition, input and clipboard events, keeps a snapshot of what
  it last knew to be in the textarea, and fires the editor-level events
  (type, paste, cut, composition start/update/end).

  The embedding is shallow. The private fields of the class are a record that every
  listener takes and returns; firing an emitter appends to the field \<open>fired\<close>;
  a thrown \<open>Error\<close> is the left injection of a sum. Listeners of the emitters are
  outside this file, so a fire is recorded and the handler goes on; a call the editor
  makes back into the handler is a step of its own.
\<close>

subsection \<open>Strings\<close>

text \<open>
  A JavaScript string is a sequence of UTF-16 code units, \<open>length\<close> counts code units
  and \<open>charCodeAt\<close> reads one. Names that the source only ever writes as literals
  (clipboard formats, the locale tag) are kept as ordinary strings.
\<close>

type_synonym jsstring = "16 word list"

text \<open>
  Modelled from the spec: \<open>strings.isHighSurrogate\<close> of vs/base/common/strings is not
  among the sources. The spec speaks of a UTF-16 high-surrogate code unit; these are the
  code units D800 to DBFF.
\<close>

definition isHighSurrogate :: "16 word \<Rightarrow> bool" where
  "isHighSurrogate charCode = (0xD800 \<le> charCode \<and> charCode \<le> 0xDBFF)"

subsection \<open>The native textarea (class TextAreaWrapper)\<close>

text \<open>
  The DOM node is its value, its two selection offsets and whether it is the document's
  active element. Assigning a value that differs from the current one moves the caret to
  the end of the new value and unselects; the DOM's own \<open>setSelectionRange\<close> clamps
  the offsets to the value. The selected text is the value between the two offsets.
\<close>

record TextAreaWrapper =
  domValue :: jsstring
  domSelectionStart :: nat
  domSelectionEnd :: nat
  domIsActiveElement :: bool

definition getValue :: "TextAreaWrapper \<Rightarrow> jsstring" where
  "getValue w = domValue w"

definition setValue :: "jsstring \<Rightarrow> TextAreaWrapper \<Rightarrow> TextAreaWrapper" where
  "setValue v w =
     (if v \<noteq> domValue w
      then w\<lparr>domValue := v, domSelectionStart := length v, domSelectionEnd := length v\<rparr>
      else w)"

definition getSelectionStart :: "TextAreaWrapper \<Rightarrow> nat" where
  "getSelectionStart w = domSelectionStart w"

definition getSelectionEnd :: "TextAreaWrapper \<Rightarrow> nat" where
  "getSelectionEnd w = domSelectionEnd w"

definition selectedText :: "TextAreaWrapper \<Rightarrow> jsstring" where
  "selectedText w =
     take (domSelectionEnd w - domSelectionStart w) (drop (domSelectionStart w) (domValue w))"

definition domSetSelectionRange :: "nat \<Rightarrow> nat \<Rightarrow> TextAreaWrapper \<Rightarrow> TextAreaWrapper" where
  "domSetSelectionRange selStart selEnd w =
     w\<lparr>domSelectionStart := min selStart (min selEnd (length (domValue w))),
       domSelectionEnd := min selEnd (length (domValue w))\<rparr>"

text \<open>
  \<open>setSelectionRange\<close> of the wrapper selects at once when the textarea is the active
  element. Otherwise it focuses the textarea first, inside a try whose catch is empty.
  What the DOM does there is a parameter: \<open>focus()\<close> throws (nothing changes), makes the
  textarea active, or returns without making it active; after a \<open>focus()\<close> that
  returned, the DOM's \<open>setSelectionRange\<close> throws (the selection stays) or selects.
\<close>

datatype FocusResult = FocusThrows | FocusActivates | FocusHasNoEffect

definition setSelectionRange ::
  "FocusResult \<Rightarrow> bool \<Rightarrow> nat \<Rightarrow> nat \<Rightarrow> TextAreaWrapper \<Rightarrow> TextAreaWrapper" where
  "setSelectionRange focusResult selectThrows selStart selEnd w =
     (if domIsActiveElement w then domSetSelectionRange selStart selEnd w
      else
        (case focusResult of
           FocusThrows \<Rightarrow> w
         | FocusActivates \<Rightarrow>
             (if selectThrows then w\<lparr>domIsActiveElement := True\<rparr>
              else domSetSelectionRange selStart selEnd (w\<lparr>domIsActiveElement := True\<rparr>))
         | FocusHasNoEffect \<Rightarrow>
             (if selectThrows then w else domSetSelectionRange selStart selEnd w)))"

subsection \<open>The snapshot (class TextAreaState)\<close>

record ITypeData =
  typedText :: jsstring
  replaceCharCnt :: nat

datatype Range = Range nat nat nat nat

text \<open>
  Modelled from the spec: the class \<open>TextAreaState\<close> of
  vs/editor/browser/controller/textAreaState is not among the sources. The spec's
  snapshot holds the last known value and the two selection offsets; the handler calls
  \<open>deduceInput\<close> on a snapshot without an argument, so a snapshot made from an
  earlier one also remembers that one's value.
\<close>

record TextAreaState =
  previousValue :: jsstring
  stateValue :: jsstring
  selectionStart :: nat
  selectionEnd :: nat

text \<open>
  Modelled from the spec: \<open>toEmpty\<close> (reset to empty, pending diff state flushed),
  \<open>resetSelection\<close> (the selection collapsed, the content kept), \<open>fromTextArea\<close>
  (value and selection read from the widget) and \<open>applyToTextArea\<close> (the snapshot's
  value written to the widget, its selection only when asked to select).
\<close>

definition toEmpty :: "TextAreaState \<Rightarrow> TextAreaState" where
  "toEmpty st = \<lparr>previousValue = [], stateValue = [], selectionStart = 0, selectionEnd = 0\<rparr>"

definition resetSelection :: "TextAreaState \<Rightarrow> TextAreaState" where
  "resetSelection st = st\<lparr>selectionEnd := selectionStart st\<rparr>"

definition fromTextArea :: "TextAreaState \<Rightarrow> TextAreaWrapper \<Rightarrow> TextAreaState" where
  "fromTextArea st w =
     \<lparr>previousValue = stateValue st, stateValue = getValue w,
      selectionStart = getSelectionStart w, selectionEnd = getSelectionEnd w\<rparr>"

definition applyToTextArea ::
  "FocusResult \<Rightarrow> bool \<Rightarrow> TextAreaState \<Rightarrow> bool \<Rightarrow> TextAreaWrapper \<Rightarrow> TextAreaWrapper" where
  "applyToTextArea focusResult selectThrows st select w =
     (let w1 = setValue (stateValue st) w
      in if select
         then setSelectionRange focusResult selectThrows (selectionStart st) (selectionEnd st) w1
         else w1)"

text \<open>
  Modelled from the spec: \<open>deduceInput\<close>. The common prefix is scanned from index 0
  and the common suffix from the end; the suffix is scanned on what the prefix leaves,
  so the two never cover the same characters. Then
  \<open>replaceCharCnt = oldLength - commonPrefix - commonSuffix\<close> and the inserted text is
  \<open>newValue[commonPrefix .. newLength - commonSuffix]\<close>.
\<close>

fun commonPrefixLength :: "'a list \<Rightarrow> 'a list \<Rightarrow> nat" where
  "commonPrefixLength (x # xs) (y # ys) = (if x = y then Suc (commonPrefixLength xs ys) else 0)"
| "commonPrefixLength _ _ = 0"

definition commonSuffixLength :: "'a list \<Rightarrow> 'a list \<Rightarrow> nat" where
  "commonSuffixLength a b = commonPrefixLength (rev a) (rev b)"

definition commonPrefix :: "jsstring \<Rightarrow> jsstring \<Rightarrow> nat" where
  "commonPrefix oldValue newValue = commonPrefixLength oldValue newValue"

definition commonSuffix :: "jsstring \<Rightarrow> jsstring \<Rightarrow> nat" where
  "commonSuffix oldValue newValue =
     commonSuffixLength (drop (commonPrefix oldValue newValue) oldValue)
                        (drop (commonPrefix oldValue newValue) newValue)"

definition substring :: "nat \<Rightarrow> nat \<Rightarrow> jsstring \<Rightarrow> jsstring" where
  "substring i j s = take (j - i) (drop i s)"

definition deduceInput :: "TextAreaState \<Rightarrow> ITypeData" where
  "deduceInput st =
     (let oldValue = previousValue st;
          newValue = stateValue st;
          p = commonPrefix oldValue newValue;
          q = commonSuffix oldValue newValue
      in \<lparr>typedText = substring p (length newValue - q) newValue,
          replaceCharCnt = length oldValue - p - q\<rparr>)"

text \<open>Replacing the last \<open>n\<close> characters of \<open>s\<close> with \<open>t\<close>.\<close>

definition replaceLast :: "nat \<Rightarrow> jsstring \<Rightarrow> jsstring \<Rightarrow> jsstring" where
  "replaceLast n t s = take (length s - n) s @ t"

text \<open>Replacing the \<open>n\<close> characters of \<open>s\<close> that start at offset \<open>i\<close> with \<open>t\<close>.\<close>

definition replaceAt :: "nat \<Rightarrow> nat \<Rightarrow> jsstring \<Rightarrow> jsstring \<Rightarrow> jsstring" where
  "replaceAt i n t s = take i s @ t @ drop (i + n) s"

subsection \<open>Platform, host and the parts of the snapshot the spec leaves open\<close>

text \<open>
  \<open>isChromev55_v56\<close> is computed in the source from the user agent string.
\<close>

fun hasSubstring :: "string \<Rightarrow> string \<Rightarrow> bool" where
  "hasSubstring pat [] = (pat = [])"
| "hasSubstring pat (c # cs) = (take (length pat) (c # cs) = pat \<or> hasSubstring pat cs)"

definition isChromev55_v56_of :: "string \<Rightarrow> bool" where
  "isChromev55_v56_of userAgent =
     ((hasSubstring ''Chrome/55.'' userAgent \<or> hasSubstring ''Chrome/56.'' userAgent)
      \<and> \<not> hasSubstring ''Edge/'' userAgent)"

type_synonym TextAreaStrategy = nat

text \<open>
  What the handler reads from outside itself. The browser flags come from
  vs/base/browser/browser, which is not among the sources, and \<open>CopyOptions\<close> is a mutable
  exported object; they are parameters. So are the methods of \<open>TextAreaState\<close> whose result
  the spec does not describe: \<open>fromText\<close>, \<open>updateComposition\<close>, \<open>toStrategy\<close> and
  \<open>fromEditorSelection\<close> (for the handler's fixed model). \<open>domFocus\<close> and
  \<open>domSelectThrows\<close> say what the DOM does when an inactive textarea is focused and
  selected.
\<close>

record Env =
  isEdgeOrIE :: bool
  isChrome :: bool
  isIPad :: bool
  userAgent :: string
  forceCopyWithSyntaxHighlighting :: bool
  domFocus :: FocusResult
  domSelectThrows :: bool
  fromText :: "TextAreaState \<Rightarrow> jsstring \<Rightarrow> TextAreaState"
  updateComposition :: "TextAreaState \<Rightarrow> ITypeData"
  toStrategy :: "TextAreaState \<Rightarrow> TextAreaStrategy \<Rightarrow> TextAreaState"
  fromEditorSelection :: "TextAreaState \<Rightarrow> Range \<Rightarrow> TextAreaState"

definition isChromev55_v56 :: "Env \<Rightarrow> bool" where
  "isChromev55_v56 env = isChromev55_v56_of (userAgent env)"

text \<open>The host's answers at the time of a copy or cut.\<close>

record ITextAreaHandlerHost =
  getPlainTextToCopy :: jsstring
  getHTMLToCopy :: jsstring

subsection \<open>Events\<close>

datatype KeyCode = Escape | KEY_IN_COMPOSITION | OtherKey nat

record IKeyboardEvent =
  keyCode :: KeyCode
  propagationStopped :: bool
  keyDefaultPrevented :: bool

definition equals :: "IKeyboardEvent \<Rightarrow> KeyCode \<Rightarrow> bool" where
  "equals e k = (keyCode e = k)"

text \<open>A composition event; \<open>locale\<close> may be missing (null in the handler's own cache).\<close>

record ICompositionEvent =
  data :: jsstring
  localeTag :: "string option"

record IPasteData =
  pasteText :: jsstring

datatype ReadFromTextArea = Type | Paste

text \<open>What the emitters fired, in order.\<close>

datatype Fired =
    OnKeyDown IKeyboardEvent
  | OnKeyUp IKeyboardEvent
  | OnCut
  | OnPaste IPasteData
  | OnType ITypeData
  | OnCompositionStart
  | OnCompositionUpdate ICompositionEvent
  | OnCompositionEnd

subsection \<open>Clipboard events (class ClipboardEventUtils)\<close>

text \<open>
  A clipboard store maps a format name to its text. A clipboard event has the event's own
  \<open>clipboardData\<close>, the legacy \<open>window.clipboardData\<close> as it is when the event is
  handled, either of which may be missing, and whether the default action was prevented.
\<close>

type_synonym DataTransfer = "string \<rightharpoonup> jsstring"

record ClipboardEvent =
  clipboardData :: "DataTransfer option"
  windowClipboardData :: "DataTransfer option"
  defaultPrevented :: bool

datatype error = Error string

definition getData :: "DataTransfer \<Rightarrow> string \<Rightarrow> jsstring" where
  "getData d format = (case d format of None \<Rightarrow> [] | Some t \<Rightarrow> t)"

definition setData :: "DataTransfer \<Rightarrow> string \<Rightarrow> jsstring \<Rightarrow> DataTransfer" where
  "setData d format t = d(format \<mapsto> t)"

definition canUseTextData :: "ClipboardEvent \<Rightarrow> bool" where
  "canUseTextData e =
     (if clipboardData e \<noteq> None then True
      else if windowClipboardData e \<noteq> None then True
      else False)"

definition getTextData :: "ClipboardEvent \<Rightarrow> error + (ClipboardEvent \<times> jsstring)" where
  "getTextData e =
     (case clipboardData e of
        Some d \<Rightarrow> Inr (e\<lparr>defaultPrevented := True\<rparr>, getData d ''text/plain'')
      | None \<Rightarrow>
          (case windowClipboardData e of
             Some w \<Rightarrow> Inr (e\<lparr>defaultPrevented := True\<rparr>, getData w ''Text'')
           | None \<Rightarrow> Inl (Error ''ClipboardEventUtils.getTextData: Cannot use text data!'')))"

definition setTextData :: "ClipboardEvent \<Rightarrow> jsstring \<Rightarrow> jsstring option \<Rightarrow> error + ClipboardEvent" where
  "setTextData e plain richText =
     (case clipboardData e of
        Some d \<Rightarrow>
          (let d1 = setData d ''text/plain'' plain;
               d2 = (case richText of Some r \<Rightarrow> setData d1 ''text/html'' r | None \<Rightarrow> d1)
           in Inr (e\<lparr>clipboardData := Some d2, defaultPrevented := True\<rparr>))
      | None \<Rightarrow>
          (case windowClipboardData e of
             Some w \<Rightarrow>
               Inr (e\<lparr>windowClipboardData := Some (setData w ''Text'' plain), defaultPrevented := True\<rparr>)
           | None \<Rightarrow> Inl (Error ''ClipboardEventUtils.setTextData: Cannot use text data!'')))"

subsection \<open>The handler (class TextAreaHandler)\<close>

record TextAreaHandler =
  textArea :: TextAreaWrapper
  selection :: Range
  hasFocus :: bool
  asyncTriggerCut :: bool
  textAreaState :: TextAreaState
  isDoingComposition :: bool
  nextCommand :: ReadFromTextArea
  compositionLocale :: "string option"
  fired :: "Fired list"

definition fire :: "Fired \<Rightarrow> TextAreaHandler \<Rightarrow> TextAreaHandler" where
  "fire ev s = s\<lparr>fired := fired s @ [ev]\<rparr>"

text \<open>
  Modelled from the spec: \<open>RunOnceScheduler\<close> of vs/base/common/async is not among the
  sources. The spec's scheduler runs its callback at most once per arming: \<open>schedule\<close>
  cancels a pending timer and arms a new one, and when the timer fires the callback runs
  and the timer is no longer pending. The field \<open>asyncTriggerCut\<close> says whether the
  timer is pending; the callback of the handler's scheduler fires \<open>onCut\<close>.
\<close>

definition cancel :: "TextAreaHandler \<Rightarrow> TextAreaHandler" where
  "cancel s = s\<lparr>asyncTriggerCut := False\<rparr>"

definition schedule :: "TextAreaHandler \<Rightarrow> TextAreaHandler" where
  "schedule s = (cancel s)\<lparr>asyncTriggerCut := True\<rparr>"

definition onTimeout :: "TextAreaHandler \<Rightarrow> TextAreaHandler" where
  "onTimeout s = (if asyncTriggerCut s then fire OnCut (s\<lparr>asyncTriggerCut := False\<rparr>) else s)"

text \<open>
  Modelled from the spec: \<open>createTextAreaState\<close>; the snapshot is created empty.
\<close>

definition createTextAreaState :: "TextAreaStrategy \<Rightarrow> TextAreaState" where
  "createTextAreaState strategy =
     \<lparr>previousValue = [], stateValue = [], selectionStart = 0, selectionEnd = 0\<rparr>"

definition setTextAreaState :: "Env \<Rightarrow> TextAreaState \<Rightarrow> bool \<Rightarrow> TextAreaHandler \<Rightarrow> TextAreaHandler" where
  "setTextAreaState env st forceFocus s =
     (let st1 = (if \<not> hasFocus s then resetSelection st else st)
      in s\<lparr>textArea := applyToTextArea (domFocus env) (domSelectThrows env) st1
                         (hasFocus s \<or> forceFocus) (textArea s),
           textAreaState := st1\<rparr>)"

definition executePaste :: "jsstring \<Rightarrow> TextAreaHandler \<Rightarrow> TextAreaHandler" where
  "executePaste txt s = (if txt = [] then s else fire (OnPaste \<lparr>pasteText = txt\<rparr>) s)"

definition writePlaceholderAndSelectTextArea :: "Env \<Rightarrow> bool \<Rightarrow> TextAreaHandler \<Rightarrow> TextAreaHandler" where
  "writePlaceholderAndSelectTextArea env forceFocus s =
     (if \<not> isDoingComposition s then
        (if isIPad env then setTextAreaState env (toEmpty (textAreaState s)) forceFocus s
         else setTextAreaState env (fromEditorSelection env (textAreaState s) (selection s)) forceFocus s)
      else s)"

definition ensureClipboardGetsEditorSelection ::
  "Env \<Rightarrow> ITextAreaHandlerHost \<Rightarrow> ClipboardEvent \<Rightarrow> TextAreaHandler \<Rightarrow> error + (ClipboardEvent \<times> TextAreaHandler)" where
  "ensureClipboardGetsEditorSelection env host e s =
     (let whatToCopy = getPlainTextToCopy host
      in if canUseTextData e then
           (let whatHTMLToCopy =
                  (if \<not> isEdgeOrIE env \<and> (length whatToCopy < 65536 \<or> forceCopyWithSyntaxHighlighting env)
                   then Some (getHTMLToCopy host) else None)
            in case setTextData e whatToCopy whatHTMLToCopy of
                 Inl err \<Rightarrow> Inl err
               | Inr e1 \<Rightarrow> Inr (e1, s))
         else Inr (e, setTextAreaState env (fromText env (textAreaState s) whatToCopy) False s))"

text \<open>The listeners the constructor registers, by the name of the DOM event.\<close>

definition keydown :: "IKeyboardEvent \<Rightarrow> TextAreaHandler \<Rightarrow> IKeyboardEvent \<times> TextAreaHandler" where
  "keydown e s =
     (let e1 = (if isDoingComposition s \<and> equals e KEY_IN_COMPOSITION
                then e\<lparr>propagationStopped := True\<rparr> else e);
          e2 = (if equals e1 Escape then e1\<lparr>keyDefaultPrevented := True\<rparr> else e1)
      in (e2, fire (OnKeyDown e2) s))"

definition keyup :: "IKeyboardEvent \<Rightarrow> TextAreaHandler \<Rightarrow> TextAreaHandler" where
  "keyup e s = fire (OnKeyUp e) s"

definition compositionstart :: "Env \<Rightarrow> ICompositionEvent \<Rightarrow> TextAreaHandler \<Rightarrow> TextAreaHandler" where
  "compositionstart env e s =
     (if isDoingComposition s then s
      else
        (let s1 = s\<lparr>isDoingComposition := True\<rparr>;
             s2 = (if \<not> isEdgeOrIE env
                   then setTextAreaState env (toEmpty (textAreaState s1)) False s1 else s1)
         in fire OnCompositionStart s2))"

definition compositionupdate :: "Env \<Rightarrow> ICompositionEvent \<Rightarrow> TextAreaHandler \<Rightarrow> TextAreaHandler" where
  "compositionupdate env e s =
     (if isChromev55_v56 env then s\<lparr>compositionLocale := localeTag e\<rparr>
      else if isEdgeOrIE env \<and> localeTag e = Some ''ja'' then
        (let s1 = s\<lparr>textAreaState := fromTextArea (textAreaState s) (textArea s)\<rparr>;
             typeInput = deduceInput (textAreaState s1)
         in fire (OnCompositionUpdate e) (fire (OnType typeInput) s1))
      else
        (let s1 = s\<lparr>textAreaState := fromText env (textAreaState s) (data e)\<rparr>;
             typeInput = updateComposition env (textAreaState s1)
         in fire (OnCompositionUpdate e) (fire (OnType typeInput) s1)))"

definition compositionend :: "Env \<Rightarrow> ICompositionEvent \<Rightarrow> TextAreaHandler \<Rightarrow> TextAreaHandler" where
  "compositionend env e s =
     (let s2 =
            (if isEdgeOrIE env \<and> localeTag e = Some ''ja'' then
               (let s1 = s\<lparr>textAreaState := fromTextArea (textAreaState s) (textArea s)\<rparr>;
                    typeInput = deduceInput (textAreaState s1)
                in fire (OnType typeInput) s1)
             else
               (let s1 = s\<lparr>textAreaState := fromText env (textAreaState s) (data e)\<rparr>;
                    typeInput = updateComposition env (textAreaState s1)
                in fire (OnType typeInput) s1));
          s3 = (if isEdgeOrIE env \<or> isChrome env
                then s2\<lparr>textAreaState := fromTextArea (textAreaState s2) (textArea s2)\<rparr> else s2)
      in if \<not> isDoingComposition s3 then s3
         else fire OnCompositionEnd (s3\<lparr>isDoingComposition := False\<rparr>))"

definition input :: "Env \<Rightarrow> TextAreaHandler \<Rightarrow> TextAreaHandler" where
  "input env s =
     (if isDoingComposition s then
        (if isChromev55_v56 env then
           (let txt = getValue (textArea s);
                s1 = s\<lparr>textAreaState := fromText env (textAreaState s) txt\<rparr>;
                typeInput = updateComposition env (textAreaState s1);
                e = \<lparr>data = txt, localeTag = compositionLocale s1\<rparr>
            in fire (OnCompositionUpdate e) (fire (OnType typeInput) s1))
         else s)
      else
        (let tempTextAreaState = fromTextArea (textAreaState s) (textArea s);
             typeInput = deduceInput tempTextAreaState
         in if replaceCharCnt typeInput = 0 \<and> length (typedText typeInput) = 1
               \<and> isHighSurrogate (typedText typeInput ! 0)
            then s
            else
              (let s1 = s\<lparr>textAreaState := tempTextAreaState\<rparr>
               in if nextCommand s1 = Type then
                    (if typedText typeInput \<noteq> [] then fire (OnType typeInput) s1 else s1)
                  else (executePaste (typedText typeInput) s1)\<lparr>nextCommand := Type\<rparr>)))"

definition cut ::
  "Env \<Rightarrow> ITextAreaHandlerHost \<Rightarrow> ClipboardEvent \<Rightarrow> TextAreaHandler \<Rightarrow> error + (ClipboardEvent \<times> TextAreaHandler)" where
  "cut env host e s =
     (case ensureClipboardGetsEditorSelection env host e s of
        Inl err \<Rightarrow> Inl err
      | Inr (e1, s1) \<Rightarrow> Inr (e1, schedule s1))"

definition copy ::
  "Env \<Rightarrow> ITextAreaHandlerHost \<Rightarrow> ClipboardEvent \<Rightarrow> TextAreaHandler \<Rightarrow> error + (ClipboardEvent \<times> TextAreaHandler)" where
  "copy env host e s = ensureClipboardGetsEditorSelection env host e s"

definition paste :: "Env \<Rightarrow> ClipboardEvent \<Rightarrow> TextAreaHandler \<Rightarrow> error + (ClipboardEvent \<times> TextAreaHandler)" where
  "paste env e s =
     (if canUseTextData e then
        (case getTextData e of
           Inl err \<Rightarrow> Inl err
         | Inr (e1, txt) \<Rightarrow> Inr (e1, executePaste txt s))
      else
        (let s1 = (if getSelectionStart (textArea s) \<noteq> getSelectionEnd (textArea s)
                   then setTextAreaState env (toEmpty (textAreaState s)) False s else s)
         in Inr (e, s1\<lparr>nextCommand := Paste\<rparr>)))"

text \<open>The public methods.\<close>

definition setStrategy :: "Env \<Rightarrow> TextAreaStrategy \<Rightarrow> TextAreaHandler \<Rightarrow> TextAreaHandler" where
  "setStrategy env strategy s = s\<lparr>textAreaState := toStrategy env (textAreaState s) strategy\<rparr>"

definition setHasFocus :: "Env \<Rightarrow> bool \<Rightarrow> TextAreaHandler \<Rightarrow> TextAreaHandler" where
  "setHasFocus env isFocused s =
     (if hasFocus s = isFocused then s
      else
        (let s1 = s\<lparr>hasFocus := isFocused\<rparr>
         in if hasFocus s1 then writePlaceholderAndSelectTextArea env False s1 else s1))"

definition setCursorSelections :: "Env \<Rightarrow> Range \<Rightarrow> Range list \<Rightarrow> TextAreaHandler \<Rightarrow> TextAreaHandler" where
  "setCursorSelections env primary secondary s =
     writePlaceholderAndSelectTextArea env False (s\<lparr>selection := primary\<rparr>)"

definition focusTextArea :: "Env \<Rightarrow> TextAreaHandler \<Rightarrow> TextAreaHandler" where
  "focusTextArea env s = writePlaceholderAndSelectTextArea env True s"

definition constructor :: "Env \<Rightarrow> TextAreaStrategy \<Rightarrow> TextAreaWrapper \<Rightarrow> TextAreaHandler" where
  "constructor env strategy w =
     writePlaceholderAndSelectTextArea env False
       \<lparr>textArea = w, selection = Range 1 1 1 1, hasFocus = False, asyncTriggerCut = False,
        textAreaState = createTextAreaState strategy, isDoingComposition = False,
        nextCommand = Type, compositionLocale = None, fired = []\<rparr>"

subsection \<open>Runs of the handler\<close>

text \<open>
  Everything that can happen to a handler: a DOM event on the textarea, the scheduler's
  timer, the platform rewriting the textarea (the user typed, the input method composed),
  and a call of a public method. A listener that throws leaves the handler as it was,
  since each throw of the source comes before any write to a field.
\<close>

datatype Native =
    Keydown IKeyboardEvent
  | Keyup IKeyboardEvent
  | Compositionstart ICompositionEvent
  | Compositionupdate ICompositionEvent
  | Compositionend ICompositionEvent
  | Input
  | Cut ITextAreaHandlerHost ClipboardEvent
  | Copy ITextAreaHandlerHost ClipboardEvent
  | PasteEvent ClipboardEvent
  | Timeout
  | PlatformWrites TextAreaWrapper
  | SetStrategy TextAreaStrategy
  | SetHasFocus bool
  | SetCursorSelections Range "Range list"
  | FocusTextArea

definition afterListener :: "TextAreaHandler \<Rightarrow> error + (ClipboardEvent \<times> TextAreaHandler) \<Rightarrow> TextAreaHandler" where
  "afterListener s r = (case r of Inl err \<Rightarrow> s | Inr (e1, s1) \<Rightarrow> s1)"

fun step :: "Env \<Rightarrow> Native \<Rightarrow> TextAreaHandler \<Rightarrow> TextAreaHandler" where
  "step env (Keydown e) s = snd (keydown e s)"
| "step env (Keyup e) s = keyup e s"
| "step env (Compositionstart e) s = compositionstart env e s"
| "step env (Compositionupdate e) s = compositionupdate env e s"
| "step env (Compositionend e) s = compositionend env e s"
| "step env Input s = input env s"
| "step env (Cut host e) s = afterListener s (cut env host e s)"
| "step env (Copy host e) s = afterListener s (copy env host e s)"
| "step env (PasteEvent e) s = afterListener s (paste env e s)"
| "step env Timeout s = onTimeout s"
| "step env (PlatformWrites w) s = s\<lparr>textArea := w\<rparr>"
| "step env (SetStrategy strategy) s = setStrategy env strategy s"
| "step env (SetHasFocus isFocused) s = setHasFocus env isFocused s"
| "step env (SetCursorSelections primary secondary) s = setCursorSelections env primary secondary s"
| "step env FocusTextArea s = focusTextArea env s"

fun run :: "Env \<Rightarrow> Native list \<Rightarrow> TextAreaHandler \<Rightarrow> TextAreaHandler" where
  "run env [] s = s"
| "run env (ev # evs) s = run env evs (step env ev s)"

subsection \<open>The order of composition events\<close>

text \<open>
  A trace of fired events never starts a composition inside a composition: read from a
  point where the handler is composing or not (\<open>composing\<close>), no \<open>OnCompositionStart\<close>
  comes while a composition that started has not ended.
\<close>

fun noStartWhileComposing :: "bool \<Rightarrow> Fired list \<Rightarrow> bool" where
  "noStartWhileComposing composing [] = True"
| "noStartWhileComposing composing (OnCompositionStart # fs) =
     (\<not> composing \<and> noStartWhileComposing True fs)"
| "noStartWhileComposing composing (OnCompositionEnd # fs) = noStartWhileComposing False fs"
| "noStartWhileComposing composing (f # fs) = noStartWhileComposing composing fs"

fun composingAfter :: "bool \<Rightarrow> Fired list \<Rightarrow> bool" where
  "composingAfter composing [] = composing"
| "composingAfter composing (OnCompositionStart # fs) = composingAfter True fs"
| "composingAfter composing (OnCompositionEnd # fs) = composingAfter False fs"
| "composingAfter composing (f # fs) = composingAfter composing fs"

text \<open>What a run fired, without what had been fired before it.\<close>

definition firedBy :: "Env \<Rightarrow> Native list \<Rightarrow> TextAreaHandler \<Rightarrow> Fired list" where
  "firedBy env evs s = drop (length (fired s)) (fired (run env evs s))"


subsection \<open>Concrete inputs\<close>

text \<open>
  A platform with every flag off, and simple choices for the snapshot methods that are
  parameters (the editor's selection always shows as the text \<open>doc\<close>, all of it
  selected); an idle, focused handler over an empty textarea.
\<close>

definition sampleEnv :: Env where
  "sampleEnv =
     \<lparr>isEdgeOrIE = False, isChrome = False, isIPad = False,
      userAgent = ''Mozilla/5.0 Gecko/20100101 Firefox/52.0'',
      forceCopyWithSyntaxHighlighting = False, domFocus = FocusActivates, domSelectThrows = False,
      fromText = (\<lambda>st t. \<lparr>previousValue = stateValue st, stateValue = t,
                           selectionStart = 0, selectionEnd = length t\<rparr>),
      updateComposition = (\<lambda>st. \<lparr>typedText = stateValue st, replaceCharCnt = 0\<rparr>),
      toStrategy = (\<lambda>st strategy. st),
      fromEditorSelection = (\<lambda>st r. \<lparr>previousValue = stateValue st,
                                      stateValue = [0x64, 0x6F, 0x63],
                                      selectionStart = 0, selectionEnd = 3\<rparr>)\<rparr>"

definition idleHandler :: TextAreaHandler where
  "idleHandler =
     \<lparr>textArea = \<lparr>domValue = [], domSelectionStart = 0, domSelectionEnd = 0,
                  domIsActiveElement = True\<rparr>,
      selection = Range 1 1 1 1, hasFocus = True, asyncTriggerCut = False,
      textAreaState = createTextAreaState 0, isDoingComposition = False,
      nextCommand = Type, compositionLocale = None, fired = []\<rparr>"

definition sampleHost :: ITextAreaHandlerHost where
  "sampleHost = \<lparr>getPlainTextToCopy = [0x68, 0x69], getHTMLToCopy = [0x3C, 0x62, 0x3E]\<rparr>"

definition noClipboard :: ClipboardEvent where
  "noClipboard = \<lparr>clipboardData = None, windowClipboardData = None, defaultPrevented = False\<rparr>"

definition eventClipboard :: "DataTransfer \<Rightarrow> ClipboardEvent" where
  "eventClipboard d = \<lparr>clipboardData = Some d, windowClipboardData = None, defaultPrevented = False\<rparr>"

definition legacyClipboard :: "DataTransfer \<Rightarrow> ClipboardEvent" where
  "legacyClipboard d = \<lparr>clipboardData = None, windowClipboardData = Some d, defaultPrevented = False\<rparr>"

section \<open>Properties of the diff\<close>

lemma commonPrefixLength_le: "commonPrefixLength a b \<le> min (length a) (length b)"
  by (induction a b rule: commonPrefixLength.induct) auto

lemma commonPrefixLength_take:
  "take (commonPrefixLength a b) a = take (commonPrefixLength a b) b"
  by (induction a b rule: commonPrefixLength.induct) auto

lemma commonSuffixLength_le: "commonSuffixLength a b \<le> min (length a) (length b)"
  unfolding commonSuffixLength_def using commonPrefixLength_le [of "rev a" "rev b"] by simp

lemma commonSuffixLength_drop:
  "drop (length a - commonSuffixLength a b) a = drop (length b - commonSuffixLength a b) b"
proof -
  let ?n = "commonSuffixLength a b"
  have "take ?n (rev a) = take ?n (rev b)"
    unfolding commonSuffixLength_def by (rule commonPrefixLength_take)
  then have "rev (take ?n (rev a)) = rev (take ?n (rev b))" by simp
  then show ?thesis by (simp add: rev_take)
qed

lemma commonPrefix_le: "commonPrefix a b \<le> min (length a) (length b)"
  unfolding commonPrefix_def by (rule commonPrefixLength_le)

lemma commonSuffix_le:
  "commonSuffix a b \<le> min (length a) (length b) - commonPrefix a b"
proof -
  have "commonSuffix a b \<le> min (length (drop (commonPrefix a b) a)) (length (drop (commonPrefix a b) b))"
    unfolding commonSuffix_def by (rule commonSuffixLength_le)
  then show ?thesis by (simp only: length_drop)
qed

lemma prefix_suffix_sum: "commonPrefix a b + commonSuffix a b \<le> min (length a) (length b)"
  using commonPrefix_le [of a b] commonSuffix_le [of a b] by linarith

lemma replaceAt_diff:
  "replaceAt (commonPrefix a b) (length a - commonPrefix a b - commonSuffix a b)
      (substring (commonPrefix a b) (length b - commonSuffix a b) b) a = b"
proof -
  let ?p = "commonPrefix a b" and ?q = "commonSuffix a b"
  have pq: "?p + ?q \<le> length a" "?p + ?q \<le> length b"
    using prefix_suffix_sum [of a b] by simp_all
  have pre: "take ?p a = take ?p b"
    unfolding commonPrefix_def by (rule commonPrefixLength_take)
  have "drop (length (drop ?p a) - ?q) (drop ?p a) = drop (length (drop ?p b) - ?q) (drop ?p b)"
    unfolding commonSuffix_def by (rule commonSuffixLength_drop)
  then have suf: "drop (length a - ?q) a = drop (length b - ?p - ?q + ?p) b"
    using pq by (simp add: add.commute)
  have "replaceAt ?p (length a - ?p - ?q) (substring ?p (length b - ?q) b) a
        = take ?p b @ take (length b - ?q - ?p) (drop ?p b) @ drop (length a - ?q) a"
    using pq pre by (simp add: replaceAt_def substring_def)
  also have "\<dots> = take ?p b @ take (length b - ?q - ?p) (drop ?p b) @ drop (length b - ?q - ?p) (drop ?p b)"
    using suf pq by (simp add: add.commute)
  also have "\<dots> = take ?p b @ drop ?p b"
    by (simp only: append_take_drop_id)
  also have "\<dots> = b" by simp
  finally show ?thesis .
qed

lemma replaceLast_diff:
  assumes "commonSuffix a b = 0"
  shows "replaceLast (length a - commonPrefix a b - commonSuffix a b)
      (substring (commonPrefix a b) (length b - commonSuffix a b) b) a = b"
proof -
  have p: "commonPrefix a b \<le> length a"
    using commonPrefix_le [of a b] by simp
  have "replaceLast (length a - commonPrefix a b)
      (substring (commonPrefix a b) (length b) b) a
      = replaceAt (commonPrefix a b) (length a - commonPrefix a b)
          (substring (commonPrefix a b) (length b) b) a"
    using p by (simp add: replaceLast_def replaceAt_def)
  then show ?thesis
    using replaceAt_diff [of a b] assms by simp
qed

text \<open>
  Old value \<open>abc\<close>, new value \<open>axc\<close>: the diff is the text \<open>x\<close> with
  \<open>replaceCharCnt = 1\<close>, and replacing the last character of \<open>abc\<close> with \<open>x\<close> gives
  \<open>abx\<close>, not \<open>axc\<close>. The characters replaced are the ones before the common suffix.
  Prefix \<open>a\<close> and suffix \<open>c\<close> do not meet here, so the order in which the two scans
  are resolved plays no part.
\<close>

theorem deduceInput_replaceLast_counterexample:
  "replaceLast
     (replaceCharCnt (deduceInput \<lparr>previousValue = [0x61, 0x62, 0x63], stateValue = [0x61, 0x78, 0x63],
                                   selectionStart = 2, selectionEnd = 2\<rparr>))
     (typedText (deduceInput \<lparr>previousValue = [0x61, 0x62, 0x63], stateValue = [0x61, 0x78, 0x63],
                               selectionStart = 2, selectionEnd = 2\<rparr>))
     [0x61, 0x62, 0x63]
   \<noteq> [0x61, 0x78, 0x63]"
  by (simp add: deduceInput_def Let_def replaceLast_def commonPrefix_def commonSuffix_def
      commonSuffixLength_def substring_def)

text \<open>
  Claim C1, as amended. For every pair of an old and a new value, \<open>deduceInput\<close> returns
  an inserted text and a \<open>replaceCharCnt\<close> such that replacing, by the inserted text, the
  \<open>replaceCharCnt\<close> characters of the old value that follow the prefix it shares with the
  new value (they end where the shared suffix begins) gives exactly the new value; the
  common prefix and the common suffix it uses together are never longer than the shorter of
  the two values; \<open>replaceCharCnt\<close> is the old length less both. When the common suffix is
  empty the replaced characters are the last \<open>replaceCharCnt\<close> characters of the old value.
\<close>

theorem deduceInput_replaces_between_prefix_and_suffix:
  "replaceAt (commonPrefix (previousValue st) (stateValue st))
      (replaceCharCnt (deduceInput st)) (typedText (deduceInput st)) (previousValue st)
     = stateValue st
   \<and> commonPrefix (previousValue st) (stateValue st) + commonSuffix (previousValue st) (stateValue st)
       \<le> min (length (previousValue st)) (length (stateValue st))
   \<and> replaceCharCnt (deduceInput st)
       = length (previousValue st) - commonPrefix (previousValue st) (stateValue st)
           - commonSuffix (previousValue st) (stateValue st)
   \<and> (commonSuffix (previousValue st) (stateValue st) = 0 \<longrightarrow>
        replaceLast (replaceCharCnt (deduceInput st)) (typedText (deduceInput st)) (previousValue st)
          = stateValue st)"
  using replaceAt_diff [of "previousValue st" "stateValue st"]
    replaceLast_diff [of "previousValue st" "stateValue st"]
    prefix_suffix_sum [of "previousValue st" "stateValue st"]
  by (simp add: deduceInput_def Let_def)

text \<open>
  The theorem at \<open>abc\<close> to \<open>axc\<close> (one character replaced in the middle) and at
  \<open>a\<close> to \<open>ab\<close> (typing at the end, empty common suffix).
\<close>

theorem deduceInput_replaces_between_prefix_and_suffix_witness:
  "deduceInput \<lparr>previousValue = [0x61, 0x62, 0x63], stateValue = [0x61, 0x78, 0x63],
                selectionStart = 2, selectionEnd = 2\<rparr>
     = \<lparr>typedText = [0x78], replaceCharCnt = 1\<rparr>
   \<and> replaceAt 1 1 [0x78] [0x61, 0x62, 0x63] = [0x61, 0x78, 0x63]
   \<and> commonSuffix [0x61] [0x61, 0x62] = 0
   \<and> deduceInput \<lparr>previousValue = [0x61], stateValue = [0x61, 0x62],
                  selectionStart = 2, selectionEnd = 2\<rparr>
     = \<lparr>typedText = [0x62], replaceCharCnt = 0\<rparr>
   \<and> replaceLast 0 [0x62] [0x61] = [0x61, 0x62]"
proof -
  let ?st1 = "\<lparr>previousValue = [0x61, 0x62, 0x63], stateValue = [0x61, 0x78, 0x63],
                selectionStart = 2, selectionEnd = 2\<rparr>"
  let ?st2 = "\<lparr>previousValue = [0x61], stateValue = [0x61, 0x62],
                  selectionStart = 2, selectionEnd = 2\<rparr>"
  have d1: "deduceInput ?st1 = \<lparr>typedText = [0x78], replaceCharCnt = 1\<rparr>"
    by (simp add: deduceInput_def Let_def commonPrefix_def commonSuffix_def
        commonSuffixLength_def substring_def)
  have d2: "deduceInput ?st2 = \<lparr>typedText = [0x62], replaceCharCnt = 0\<rparr>"
    by (simp add: deduceInput_def Let_def commonPrefix_def commonSuffix_def
        commonSuffixLength_def substring_def)
  have p1: "commonPrefix [0x61, 0x62, 0x63] [0x61, 0x78, 0x63] = 1"
    by (simp add: commonPrefix_def)
  have q2: "commonSuffix [0x61] [0x61, 0x62] = 0"
    by (simp add: commonPrefix_def commonSuffix_def commonSuffixLength_def)
  note a = deduceInput_replaces_between_prefix_and_suffix [of ?st1]
  note b = deduceInput_replaces_between_prefix_and_suffix [of ?st2]
  have a': "replaceAt 1 1 [0x78] [0x61, 0x62, 0x63] = [0x61, 0x78, 0x63]"
    using a d1 p1 by simp
  have b': "replaceLast 0 [0x62] [0x61] = [0x61, 0x62]"
    using b d2 q2 by simp
  from d1 d2 q2 a' b' show ?thesis by simp
qed

section \<open>The input listener\<close>

lemmas handler_defs = input_def Let_def fire_def fromTextArea_def deduceInput_def getValue_def
  getSelectionStart_def getSelectionEnd_def commonPrefix_def commonSuffix_def
  commonSuffixLength_def substring_def isHighSurrogate_def idleHandler_def
  createTextAreaState_def executePaste_def

lemmas sample_defs = sampleEnv_def sampleHost_def idleHandler_def noClipboard_def
  eventClipboard_def legacyClipboard_def createTextAreaState_def

lemmas widget_defs = setTextAreaState_def applyToTextArea_def setValue_def getValue_def
  setSelectionRange_def domSetSelectionRange_def selectedText_def getSelectionStart_def getSelectionEnd_def toEmpty_def resetSelection_def

text \<open>
  Claim C2. When an input event is handled while the handler is not composing, and the
  diff deduced from the textarea has \<open>replaceCharCnt = 0\<close> and a text of exactly one code
  unit that is a high surrogate, the listener returns at once: the handler is unchanged, so
  nothing is fired (no \<open>onType\<close>, no \<open>onPaste\<close>) and the committed snapshot
  \<open>textAreaState\<close> is the one from before; whatever the textarea holds at the next input
  event is then compared with that earlier snapshot.
\<close>

theorem input_ignores_lone_high_surrogate:
  assumes "\<not> isDoingComposition s"
    and "replaceCharCnt (deduceInput (fromTextArea (textAreaState s) (textArea s))) = 0"
    and "length (typedText (deduceInput (fromTextArea (textAreaState s) (textArea s)))) = 1"
    and "isHighSurrogate (typedText (deduceInput (fromTextArea (textAreaState s) (textArea s))) ! 0)"
  shows "input env s = s
    \<and> fired (input env s) = fired s
    \<and> textAreaState (input env s) = textAreaState s
    \<and> input env ((input env s)\<lparr>textArea := w\<rparr>) = input env (s\<lparr>textArea := w\<rparr>)"
proof -
  have "input env s = s"
    using assms by (simp add: input_def Let_def)
  then show ?thesis by simp
qed

text \<open>
  The snapshot holds \<open>a\<close> and the textarea \<open>a\<close> followed by the high surrogate D83D:
  the event is ignored. When the low surrogate DE00 has arrived too, the next input event
  fires one \<open>onType\<close> with the whole pair.
\<close>

theorem input_ignores_lone_high_surrogate_witness:
  "input sampleEnv
     (idleHandler\<lparr>textAreaState := \<lparr>previousValue = [], stateValue = [0x61],
                                      selectionStart = 1, selectionEnd = 1\<rparr>,
                  textArea := \<lparr>domValue = [0x61, 0xD83D], domSelectionStart = 2,
                                 domSelectionEnd = 2, domIsActiveElement = True\<rparr>\<rparr>)
   = idleHandler\<lparr>textAreaState := \<lparr>previousValue = [], stateValue = [0x61],
                                      selectionStart = 1, selectionEnd = 1\<rparr>,
                  textArea := \<lparr>domValue = [0x61, 0xD83D], domSelectionStart = 2,
                                 domSelectionEnd = 2, domIsActiveElement = True\<rparr>\<rparr>
   \<and> fired (input sampleEnv
       ((input sampleEnv
          (idleHandler\<lparr>textAreaState := \<lparr>previousValue = [], stateValue = [0x61],
                                           selectionStart = 1, selectionEnd = 1\<rparr>,
                       textArea := \<lparr>domValue = [0x61, 0xD83D], domSelectionStart = 2,
                                      domSelectionEnd = 2, domIsActiveElement = True\<rparr>\<rparr>))
        \<lparr>textArea := \<lparr>domValue = [0x61, 0xD83D, 0xDE00], domSelectionStart = 3,
                       domSelectionEnd = 3, domIsActiveElement = True\<rparr>\<rparr>))
     = [OnType \<lparr>typedText = [0xD83D, 0xDE00], replaceCharCnt = 0\<rparr>]"
proof -
  let ?s = "idleHandler\<lparr>textAreaState := \<lparr>previousValue = [], stateValue = [0x61],
                                      selectionStart = 1, selectionEnd = 1\<rparr>,
                  textArea := \<lparr>domValue = [0x61, 0xD83D], domSelectionStart = 2,
                                 domSelectionEnd = 2, domIsActiveElement = True\<rparr>\<rparr>"
  let ?w = "\<lparr>domValue = [0x61, 0xD83D, 0xDE00], domSelectionStart = 3,
                       domSelectionEnd = 3, domIsActiveElement = True\<rparr>"
  have h1: "\<not> isDoingComposition ?s" by (simp add: idleHandler_def)
  have h2: "replaceCharCnt (deduceInput (fromTextArea (textAreaState ?s) (textArea ?s))) = 0"
    by (simp add: handler_defs)
  have h3: "length (typedText (deduceInput (fromTextArea (textAreaState ?s) (textArea ?s)))) = 1"
    by (simp add: handler_defs)
  have h4: "isHighSurrogate (typedText (deduceInput (fromTextArea (textAreaState ?s) (textArea ?s))) ! 0)"
    by (simp add: handler_defs)
  note t = input_ignores_lone_high_surrogate [OF h1 h2 h3 h4, of sampleEnv ?w]
  have "fired (input sampleEnv (?s\<lparr>textArea := ?w\<rparr>))
     = [OnType \<lparr>typedText = [0xD83D, 0xDE00], replaceCharCnt = 0\<rparr>]"
    by (simp add: handler_defs)
  with t show ?thesis by simp
qed

section \<open>What the helpers leave alone\<close>

lemma resetSelection_toEmpty: "resetSelection (toEmpty st) = toEmpty st"
  by (simp add: resetSelection_def toEmpty_def)

lemma getValue_setSelectionRange:
  "getValue (setSelectionRange focusResult selectThrows i j w) = getValue w"
  by (simp add: setSelectionRange_def domSetSelectionRange_def getValue_def split: FocusResult.splits)

lemma getValue_applyToTextArea:
  "getValue (applyToTextArea focusResult selectThrows st select w) = stateValue st"
  by (simp add: applyToTextArea_def Let_def getValue_setSelectionRange)
     (simp add: setValue_def getValue_def)

lemma setTextAreaState_toEmpty:
  "textAreaState (setTextAreaState env (toEmpty st) forceFocus s) = toEmpty st
   \<and> getValue (textArea (setTextAreaState env (toEmpty st) forceFocus s)) = []
   \<and> fired (setTextAreaState env (toEmpty st) forceFocus s) = fired s
   \<and> isDoingComposition (setTextAreaState env (toEmpty st) forceFocus s) = isDoingComposition s
   \<and> nextCommand (setTextAreaState env (toEmpty st) forceFocus s) = nextCommand s
   \<and> asyncTriggerCut (setTextAreaState env (toEmpty st) forceFocus s) = asyncTriggerCut s"
  by (simp add: setTextAreaState_def Let_def resetSelection_toEmpty getValue_applyToTextArea)
     (simp add: toEmpty_def)

lemma fired_setTextAreaState [simp]: "fired (setTextAreaState env st forceFocus s) = fired s"
  by (simp add: setTextAreaState_def Let_def)

lemma isDoingComposition_setTextAreaState [simp]:
  "isDoingComposition (setTextAreaState env st forceFocus s) = isDoingComposition s"
  by (simp add: setTextAreaState_def Let_def)

lemma asyncTriggerCut_setTextAreaState [simp]:
  "asyncTriggerCut (setTextAreaState env st forceFocus s) = asyncTriggerCut s"
  by (simp add: setTextAreaState_def Let_def)

lemma nextCommand_setTextAreaState [simp]:
  "nextCommand (setTextAreaState env st forceFocus s) = nextCommand s"
  by (simp add: setTextAreaState_def Let_def)

lemma fired_writePlaceholder [simp]:
  "fired (writePlaceholderAndSelectTextArea env forceFocus s) = fired s"
  by (simp add: writePlaceholderAndSelectTextArea_def)

lemma isDoingComposition_writePlaceholder [simp]:
  "isDoingComposition (writePlaceholderAndSelectTextArea env forceFocus s) = isDoingComposition s"
  by (simp add: writePlaceholderAndSelectTextArea_def)

lemma fired_executePaste:
  "fired (executePaste txt s) = fired s @ (if txt = [] then [] else [OnPaste \<lparr>pasteText = txt\<rparr>])"
  by (simp add: executePaste_def fire_def)

lemma isDoingComposition_executePaste [simp]:
  "isDoingComposition (executePaste txt s) = isDoingComposition s"
  by (simp add: executePaste_def fire_def)

section \<open>Paste\<close>

text \<open>
  Claim C3. On a paste event whose clipboard text can be read, from the event's own
  clipboard data as \<open>text/plain\<close> or else from the legacy window clipboard as \<open>Text\<close>,
  the paste listener itself calls \<open>executePaste\<close> with that text, which fires
  \<open>onPaste\<close> with it unless the text is empty. Otherwise the listener fires nothing, sets
  \<open>nextCommand\<close> to \<open>Paste\<close>, and clears the textarea's value if its selection is not
  empty (it leaves the textarea alone if the selection is empty). The \<open>onPaste\<close> then
  comes from the input listener: an input event that is reconciled (not composing, not a
  lone high surrogate) while \<open>nextCommand\<close> is \<open>Paste\<close> fires \<open>onPaste\<close> with the deduced
  text unless that is empty, and sets \<open>nextCommand\<close> back to \<open>Type\<close>.
\<close>

theorem paste_now_or_on_next_input:
  "(clipboardData e = Some d \<longrightarrow>
      paste env e s = Inr (e\<lparr>defaultPrevented := True\<rparr>, executePaste (getData d ''text/plain'') s))
   \<and> (clipboardData e = None \<and> windowClipboardData e = Some w \<longrightarrow>
      paste env e s = Inr (e\<lparr>defaultPrevented := True\<rparr>, executePaste (getData w ''Text'') s))
   \<and> fired (executePaste pasted s)
       = fired s @ (if pasted = [] then [] else [OnPaste \<lparr>pasteText = pasted\<rparr>])
   \<and> (clipboardData e = None \<and> windowClipboardData e = None \<longrightarrow>
      (\<exists>s1. paste env e s = Inr (e, s1) \<and> fired s1 = fired s \<and> nextCommand s1 = Paste
         \<and> (if getSelectionStart (textArea s) \<noteq> getSelectionEnd (textArea s)
            then getValue (textArea s1) = [] else textArea s1 = textArea s)))
   \<and> (nextCommand s = Paste \<and> \<not> isDoingComposition s
       \<and> \<not> (replaceCharCnt (deduceInput (fromTextArea (textAreaState s) (textArea s))) = 0
            \<and> length (typedText (deduceInput (fromTextArea (textAreaState s) (textArea s)))) = 1
            \<and> isHighSurrogate (typedText (deduceInput (fromTextArea (textAreaState s) (textArea s))) ! 0))
      \<longrightarrow> fired (input env s)
            = fired s @ (if typedText (deduceInput (fromTextArea (textAreaState s) (textArea s))) = [] then []
                         else [OnPaste \<lparr>pasteText = typedText (deduceInput (fromTextArea (textAreaState s) (textArea s)))\<rparr>])
          \<and> nextCommand (input env s) = Type)"
proof -
  have 1: "clipboardData e = Some d \<longrightarrow>
      paste env e s = Inr (e\<lparr>defaultPrevented := True\<rparr>, executePaste (getData d ''text/plain'') s)"
    by (simp add: paste_def canUseTextData_def getTextData_def)
  have 2: "clipboardData e = None \<and> windowClipboardData e = Some w \<longrightarrow>
      paste env e s = Inr (e\<lparr>defaultPrevented := True\<rparr>, executePaste (getData w ''Text'') s)"
    by (simp add: paste_def canUseTextData_def getTextData_def)
  have 3: "fired (executePaste pasted s)
       = fired s @ (if pasted = [] then [] else [OnPaste \<lparr>pasteText = pasted\<rparr>])"
    by (rule fired_executePaste)
  have 4: "clipboardData e = None \<and> windowClipboardData e = None \<longrightarrow>
      (\<exists>s1. paste env e s = Inr (e, s1) \<and> fired s1 = fired s \<and> nextCommand s1 = Paste
         \<and> (if getSelectionStart (textArea s) \<noteq> getSelectionEnd (textArea s)
            then getValue (textArea s1) = [] else textArea s1 = textArea s))"
    using setTextAreaState_toEmpty [of env "textAreaState s" False s]
    by (simp add: paste_def canUseTextData_def Let_def)
  have 5: "nextCommand s = Paste \<and> \<not> isDoingComposition s
       \<and> \<not> (replaceCharCnt (deduceInput (fromTextArea (textAreaState s) (textArea s))) = 0
            \<and> length (typedText (deduceInput (fromTextArea (textAreaState s) (textArea s)))) = 1
            \<and> isHighSurrogate (typedText (deduceInput (fromTextArea (textAreaState s) (textArea s))) ! 0))
      \<longrightarrow> fired (input env s)
            = fired s @ (if typedText (deduceInput (fromTextArea (textAreaState s) (textArea s))) = [] then []
                         else [OnPaste \<lparr>pasteText = typedText (deduceInput (fromTextArea (textAreaState s) (textArea s)))\<rparr>])
          \<and> nextCommand (input env s) = Type"
    by (auto simp add: input_def Let_def executePaste_def fire_def)
  from 1 2 3 4 5 show ?thesis by blast
qed

text \<open>
  Pasting \<open>hello\<close> from the event's clipboard data fires \<open>onPaste\<close> with \<open>hello\<close>
  in the listener; an empty legacy clipboard text fires nothing; with no clipboard at all
  and a selected textarea, the textarea is cleared, nothing is fired, and the input event
  that follows once the platform has written \<open>hello\<close> fires the \<open>onPaste\<close>.
\<close>

theorem paste_now_or_on_next_input_witness:
  "paste sampleEnv (eventClipboard (Map.empty(''text/plain'' \<mapsto> [0x68, 0x65, 0x6C, 0x6C, 0x6F]))) idleHandler
     = Inr ((eventClipboard (Map.empty(''text/plain'' \<mapsto> [0x68, 0x65, 0x6C, 0x6C, 0x6F])))\<lparr>defaultPrevented := True\<rparr>,
            executePaste [0x68, 0x65, 0x6C, 0x6C, 0x6F] idleHandler)
   \<and> fired (executePaste [0x68, 0x65, 0x6C, 0x6C, 0x6F] idleHandler)
       = [OnPaste \<lparr>pasteText = [0x68, 0x65, 0x6C, 0x6C, 0x6F]\<rparr>]
   \<and> paste sampleEnv (legacyClipboard (Map.empty(''Text'' \<mapsto> []))) idleHandler
     = Inr ((legacyClipboard (Map.empty(''Text'' \<mapsto> [])))\<lparr>defaultPrevented := True\<rparr>, idleHandler)
   \<and> (\<exists>s1. paste sampleEnv noClipboard
              (idleHandler\<lparr>textArea := \<lparr>domValue = [0x61, 0x62], domSelectionStart = 0,
                                         domSelectionEnd = 2, domIsActiveElement = True\<rparr>\<rparr>)
            = Inr (noClipboard, s1)
          \<and> fired s1 = [] \<and> nextCommand s1 = Paste \<and> getValue (textArea s1) = [])
   \<and> fired (input sampleEnv
        (idleHandler\<lparr>nextCommand := Paste,
                     textArea := \<lparr>domValue = [0x68, 0x65, 0x6C, 0x6C, 0x6F], domSelectionStart = 5,
                                    domSelectionEnd = 5, domIsActiveElement = True\<rparr>\<rparr>))
       = [OnPaste \<lparr>pasteText = [0x68, 0x65, 0x6C, 0x6C, 0x6F]\<rparr>]
   \<and> nextCommand (input sampleEnv
        (idleHandler\<lparr>nextCommand := Paste,
                     textArea := \<lparr>domValue = [0x68, 0x65, 0x6C, 0x6C, 0x6F], domSelectionStart = 5,
                                    domSelectionEnd = 5, domIsActiveElement = True\<rparr>\<rparr>))
       = Type"
proof -
  let ?hello = "[0x68, 0x65, 0x6C, 0x6C, 0x6F] :: jsstring"
  let ?s = "idleHandler\<lparr>nextCommand := Paste,
                     textArea := \<lparr>domValue = ?hello, domSelectionStart = 5,
                                    domSelectionEnd = 5, domIsActiveElement = True\<rparr>\<rparr>"
  note a = paste_now_or_on_next_input
    [where e = "eventClipboard (Map.empty(''text/plain'' \<mapsto> ?hello))"
       and d = "Map.empty(''text/plain'' \<mapsto> ?hello)" and env = sampleEnv and s = idleHandler
       and pasted = ?hello]
  note b = paste_now_or_on_next_input
    [where e = "legacyClipboard (Map.empty(''Text'' \<mapsto> []))"
       and w = "Map.empty(''Text'' \<mapsto> [])" and env = sampleEnv and s = idleHandler]
  note c = paste_now_or_on_next_input
    [where e = noClipboard and env = sampleEnv
       and s = "idleHandler\<lparr>textArea := \<lparr>domValue = [0x61, 0x62], domSelectionStart = 0,
                                         domSelectionEnd = 2, domIsActiveElement = True\<rparr>\<rparr>"]
  note d = paste_now_or_on_next_input [where env = sampleEnv and s = ?s]
  have typed: "typedText (deduceInput (fromTextArea (textAreaState ?s) (textArea ?s))) = ?hello"
    by (simp add: handler_defs)
  have a': "paste sampleEnv (eventClipboard (Map.empty(''text/plain'' \<mapsto> ?hello))) idleHandler
     = Inr ((eventClipboard (Map.empty(''text/plain'' \<mapsto> ?hello)))\<lparr>defaultPrevented := True\<rparr>,
            executePaste ?hello idleHandler)
     \<and> fired (executePaste ?hello idleHandler) = [OnPaste \<lparr>pasteText = ?hello\<rparr>]"
    using a by (simp add: eventClipboard_def getData_def idleHandler_def)
  have b': "paste sampleEnv (legacyClipboard (Map.empty(''Text'' \<mapsto> []))) idleHandler
     = Inr ((legacyClipboard (Map.empty(''Text'' \<mapsto> [])))\<lparr>defaultPrevented := True\<rparr>, idleHandler)"
    using b by (simp add: legacyClipboard_def getData_def executePaste_def)
  have c': "\<exists>s1. paste sampleEnv noClipboard
              (idleHandler\<lparr>textArea := \<lparr>domValue = [0x61, 0x62], domSelectionStart = 0,
                                         domSelectionEnd = 2, domIsActiveElement = True\<rparr>\<rparr>)
            = Inr (noClipboard, s1)
          \<and> fired s1 = [] \<and> nextCommand s1 = Paste \<and> getValue (textArea s1) = []"
    using c by (simp add: noClipboard_def idleHandler_def getSelectionStart_def getSelectionEnd_def)
  have d': "fired (input sampleEnv ?s) = [OnPaste \<lparr>pasteText = ?hello\<rparr>]
     \<and> nextCommand (input sampleEnv ?s) = Type"
    using d typed by (simp add: idleHandler_def)
  from a' b' c' d' show ?thesis by blast
qed

section \<open>Cut and the scheduler\<close>

lemma setTextData_ok:
  "canUseTextData e \<Longrightarrow> \<exists>e1. setTextData e plain richText = Inr e1"
  by (auto simp add: canUseTextData_def setTextData_def Let_def split: option.splits if_splits)

lemma ensureClipboard_ok:
  "\<exists>e1 s1. ensureClipboardGetsEditorSelection env host e s = Inr (e1, s1)
      \<and> fired s1 = fired s \<and> isDoingComposition s1 = isDoingComposition s
      \<and> asyncTriggerCut s1 = asyncTriggerCut s"
proof (cases "canUseTextData e")
  case True
  then obtain e1 where "setTextData e (getPlainTextToCopy host)
      (if \<not> isEdgeOrIE env \<and> (length (getPlainTextToCopy host) < 65536 \<or> forceCopyWithSyntaxHighlighting env)
       then Some (getHTMLToCopy host) else None) = Inr e1"
    using setTextData_ok by blast
  with True show ?thesis
    by (simp add: ensureClipboardGetsEditorSelection_def Let_def)
next
  case False
  then show ?thesis
    by (simp add: ensureClipboardGetsEditorSelection_def Let_def)
qed

lemma cut_ok:
  "\<exists>e1 s1. cut env host e s = Inr (e1, s1) \<and> fired s1 = fired s
      \<and> isDoingComposition s1 = isDoingComposition s \<and> asyncTriggerCut s1"
proof -
  obtain e1 s1 where "ensureClipboardGetsEditorSelection env host e s = Inr (e1, s1)"
    and "fired s1 = fired s" and "isDoingComposition s1 = isDoingComposition s"
    using ensureClipboard_ok by blast
  then show ?thesis
    by (simp add: cut_def schedule_def cancel_def)
qed

lemma step_Cut:
  "fired (step env (Cut host e) s) = fired s \<and> asyncTriggerCut (step env (Cut host e) s)
   \<and> isDoingComposition (step env (Cut host e) s) = isDoingComposition s"
  using cut_ok [of env host e s] by (auto simp add: afterListener_def)





lemma textArea_schedule [simp]: "textArea (schedule s) = textArea s"
  by (simp add: schedule_def cancel_def)


lemma domValue_setValue [simp]: "domValue (setValue v w) = v"
  by (simp add: setValue_def)


lemma domIsActiveElement_setValue [simp]: "domIsActiveElement (setValue v w) = domIsActiveElement w"
  by (simp add: setValue_def)







section \<open>Reseeding the textarea\<close>

text \<open>
  Claim C5. While the handler is composing, \<open>setCursorSelections\<close> changes nothing but
  the stored primary selection, \<open>setHasFocus\<close> changes nothing but the focus flag, and
  \<open>focusTextArea\<close> changes nothing: the textarea's value and selection stay as the
  composition left them.
\<close>

theorem reseed_is_noop_while_composing:
  assumes "isDoingComposition s"
  shows "setCursorSelections env primary secondary s = s\<lparr>selection := primary\<rparr>
    \<and> textArea (setCursorSelections env primary secondary s) = textArea s
    \<and> setHasFocus env isFocused s = s\<lparr>hasFocus := isFocused\<rparr>
    \<and> textArea (setHasFocus env isFocused s) = textArea s
    \<and> focusTextArea env s = s"
  using assms
  by (simp add: setCursorSelections_def setHasFocus_def focusTextArea_def
      writePlaceholderAndSelectTextArea_def Let_def)

text \<open>
  A composing handler without focus whose textarea holds the composed character 308F,
  while the editor's selection would show as \<open>doc\<close>: a new cursor selection, a focus
  gain and \<open>focusTextArea\<close> all leave the textarea as it is. The same three calls on the
  same handler when it is not composing write \<open>doc\<close> into the textarea.
\<close>

theorem reseed_is_noop_while_composing_witness:
  "isDoingComposition
     (idleHandler\<lparr>isDoingComposition := True, hasFocus := False,
                  textArea := \<lparr>domValue = [0x308F], domSelectionStart = 1,
                                 domSelectionEnd = 1, domIsActiveElement = True\<rparr>\<rparr>)
   \<and> setCursorSelections sampleEnv (Range 2 1 2 5) []
       (idleHandler\<lparr>isDoingComposition := True, hasFocus := False,
                    textArea := \<lparr>domValue = [0x308F], domSelectionStart = 1,
                                   domSelectionEnd = 1, domIsActiveElement = True\<rparr>\<rparr>)
     = idleHandler\<lparr>isDoingComposition := True, hasFocus := False,
                   textArea := \<lparr>domValue = [0x308F], domSelectionStart = 1,
                                  domSelectionEnd = 1, domIsActiveElement = True\<rparr>,
                   selection := Range 2 1 2 5\<rparr>
   \<and> setHasFocus sampleEnv True
       (idleHandler\<lparr>isDoingComposition := True, hasFocus := False,
                    textArea := \<lparr>domValue = [0x308F], domSelectionStart = 1,
                                   domSelectionEnd = 1, domIsActiveElement = True\<rparr>\<rparr>)
     = idleHandler\<lparr>isDoingComposition := True, hasFocus := True,
                   textArea := \<lparr>domValue = [0x308F], domSelectionStart = 1,
                                  domSelectionEnd = 1, domIsActiveElement = True\<rparr>\<rparr>
   \<and> focusTextArea sampleEnv
       (idleHandler\<lparr>isDoingComposition := True, hasFocus := False,
                    textArea := \<lparr>domValue = [0x308F], domSelectionStart = 1,
                                   domSelectionEnd = 1, domIsActiveElement = True\<rparr>\<rparr>)
     = idleHandler\<lparr>isDoingComposition := True, hasFocus := False,
                   textArea := \<lparr>domValue = [0x308F], domSelectionStart = 1,
                                  domSelectionEnd = 1, domIsActiveElement = True\<rparr>\<rparr>
   \<and> textArea (setCursorSelections sampleEnv (Range 2 1 2 5) []
       (idleHandler\<lparr>isDoingComposition := False, hasFocus := False,
                    textArea := \<lparr>domValue = [0x308F], domSelectionStart = 1,
                                   domSelectionEnd = 1, domIsActiveElement = True\<rparr>\<rparr>))
     = \<lparr>domValue = [0x64, 0x6F, 0x63], domSelectionStart = 3,
        domSelectionEnd = 3, domIsActiveElement = True\<rparr>
   \<and> textArea (setHasFocus sampleEnv True
       (idleHandler\<lparr>isDoingComposition := False, hasFocus := False,
                    textArea := \<lparr>domValue = [0x308F], domSelectionStart = 1,
                                   domSelectionEnd = 1, domIsActiveElement = True\<rparr>\<rparr>))
     = \<lparr>domValue = [0x64, 0x6F, 0x63], domSelectionStart = 0,
        domSelectionEnd = 3, domIsActiveElement = True\<rparr>
   \<and> textArea (focusTextArea sampleEnv
       (idleHandler\<lparr>isDoingComposition := False, hasFocus := False,
                    textArea := \<lparr>domValue = [0x308F], domSelectionStart = 1,
                                   domSelectionEnd = 1, domIsActiveElement = True\<rparr>\<rparr>))
     = \<lparr>domValue = [0x64, 0x6F, 0x63], domSelectionStart = 0,
        domSelectionEnd = 0, domIsActiveElement = True\<rparr>"
proof -
  let ?w = "\<lparr>domValue = [0x308F], domSelectionStart = 1,
             domSelectionEnd = 1, domIsActiveElement = True\<rparr>"
  let ?s = "idleHandler\<lparr>isDoingComposition := True, hasFocus := False, textArea := ?w\<rparr>"
  let ?idle = "idleHandler\<lparr>isDoingComposition := False, hasFocus := False, textArea := ?w\<rparr>"
  have h: "isDoingComposition ?s" by simp
  note t = reseed_is_noop_while_composing [OF h, of sampleEnv "Range 2 1 2 5" "[]" True]
  have composing: "setCursorSelections sampleEnv (Range 2 1 2 5) [] ?s = ?s\<lparr>selection := Range 2 1 2 5\<rparr>
     \<and> setHasFocus sampleEnv True ?s = ?s\<lparr>hasFocus := True\<rparr>
     \<and> focusTextArea sampleEnv ?s = ?s"
    using t by simp
  have idle1: "textArea (setCursorSelections sampleEnv (Range 2 1 2 5) [] ?idle)
     = \<lparr>domValue = [0x64, 0x6F, 0x63], domSelectionStart = 3,
        domSelectionEnd = 3, domIsActiveElement = True\<rparr>"
    by (simp add: setCursorSelections_def writePlaceholderAndSelectTextArea_def Let_def
        sample_defs widget_defs)
  have idle2: "textArea (setHasFocus sampleEnv True ?idle)
     = \<lparr>domValue = [0x64, 0x6F, 0x63], domSelectionStart = 0,
        domSelectionEnd = 3, domIsActiveElement = True\<rparr>"
    by (simp add: setHasFocus_def writePlaceholderAndSelectTextArea_def Let_def
        sample_defs widget_defs)
  have idle3: "textArea (focusTextArea sampleEnv ?idle)
     = \<lparr>domValue = [0x64, 0x6F, 0x63], domSelectionStart = 0,
        domSelectionEnd = 0, domIsActiveElement = True\<rparr>"
    by (simp add: focusTextArea_def writePlaceholderAndSelectTextArea_def Let_def
        sample_defs widget_defs)
  from h composing idle1 idle2 idle3 show ?thesis by (simp add: idleHandler_def)
qed

section \<open>Composition\<close>

text \<open>
  Claim C6. A \<open>compositionstart\<close> event received while the handler is not composing
  makes it composing and fires \<open>onCompositionStart\<close> once, and nothing else. On Edge or
  IE the snapshot and the textarea are left as they were; on every other platform the
  snapshot becomes the empty snapshot and the textarea's value becomes empty.
\<close>

theorem compositionstart_while_idle:
  assumes "\<not> isDoingComposition s"
  shows "isDoingComposition (compositionstart env e s)
    \<and> fired (compositionstart env e s) = fired s @ [OnCompositionStart]
    \<and> (if isEdgeOrIE env
        then textAreaState (compositionstart env e s) = textAreaState s
           \<and> textArea (compositionstart env e s) = textArea s
        else textAreaState (compositionstart env e s) = toEmpty (textAreaState s)
           \<and> stateValue (textAreaState (compositionstart env e s)) = []
           \<and> getValue (textArea (compositionstart env e s)) = [])"
proof (cases "isEdgeOrIE env")
  case True
  with assms show ?thesis by (simp add: compositionstart_def Let_def fire_def)
next
  case False
  with assms show ?thesis
    using setTextAreaState_toEmpty [of env "textAreaState s" False "s\<lparr>isDoingComposition := True\<rparr>"]
    by (simp add: compositionstart_def Let_def fire_def) (simp add: toEmpty_def)
qed

text \<open>
  A textarea holding \<open>ab\<close>: emptied on a platform that is not Edge or IE, kept on Edge
  or IE.
\<close>

theorem compositionstart_while_idle_witness:
  "\<not> isDoingComposition idleHandler
   \<and> isDoingComposition
       (compositionstart sampleEnv \<lparr>data = [], localeTag = None\<rparr>
          (idleHandler\<lparr>textArea := \<lparr>domValue = [0x61, 0x62], domSelectionStart = 2,
                                     domSelectionEnd = 2, domIsActiveElement = True\<rparr>\<rparr>))
   \<and> fired
       (compositionstart sampleEnv \<lparr>data = [], localeTag = None\<rparr>
          (idleHandler\<lparr>textArea := \<lparr>domValue = [0x61, 0x62], domSelectionStart = 2,
                                     domSelectionEnd = 2, domIsActiveElement = True\<rparr>\<rparr>))
       = [OnCompositionStart]
   \<and> getValue (textArea
       (compositionstart sampleEnv \<lparr>data = [], localeTag = None\<rparr>
          (idleHandler\<lparr>textArea := \<lparr>domValue = [0x61, 0x62], domSelectionStart = 2,
                                     domSelectionEnd = 2, domIsActiveElement = True\<rparr>\<rparr>))) = []
   \<and> getValue (textArea
       (compositionstart (sampleEnv\<lparr>isEdgeOrIE := True\<rparr>) \<lparr>data = [], localeTag = None\<rparr>
          (idleHandler\<lparr>textArea := \<lparr>domValue = [0x61, 0x62], domSelectionStart = 2,
                                     domSelectionEnd = 2, domIsActiveElement = True\<rparr>\<rparr>)))
       = [0x61, 0x62]"
proof -
  let ?s = "idleHandler\<lparr>textArea := \<lparr>domValue = [0x61, 0x62], domSelectionStart = 2,
                                     domSelectionEnd = 2, domIsActiveElement = True\<rparr>\<rparr>"
  let ?e = "\<lparr>data = [], localeTag = None\<rparr>"
  have idle: "\<not> isDoingComposition ?s" by (simp add: idleHandler_def)
  note a = compositionstart_while_idle [OF idle, of sampleEnv ?e]
  note b = compositionstart_while_idle [OF idle, of "sampleEnv\<lparr>isEdgeOrIE := True\<rparr>" ?e]
  have a': "isDoingComposition (compositionstart sampleEnv ?e ?s)
     \<and> fired (compositionstart sampleEnv ?e ?s) = [OnCompositionStart]
     \<and> getValue (textArea (compositionstart sampleEnv ?e ?s)) = []"
    using a by (simp add: sampleEnv_def idleHandler_def)
  have b': "getValue (textArea (compositionstart (sampleEnv\<lparr>isEdgeOrIE := True\<rparr>) ?e ?s)) = [0x61, 0x62]"
    using b by (simp add: sampleEnv_def idleHandler_def getValue_def)
  from a' b' show ?thesis by (simp add: idleHandler_def)
qed

lemma noStartWhileComposing_append:
  "noStartWhileComposing c (t1 @ t2)
     = (noStartWhileComposing c t1 \<and> noStartWhileComposing (composingAfter c t1) t2)"
  by (induction c t1 rule: noStartWhileComposing.induct) auto

lemma composingAfter_append:
  "composingAfter c (t1 @ t2) = composingAfter (composingAfter c t1) t2"
  by (induction c t1 rule: composingAfter.induct) auto

lemma paste_ok:
  "\<exists>e1 s1 t. paste env e s = Inr (e1, s1) \<and> fired s1 = fired s @ t
      \<and> (t = [] \<or> (\<exists>p. t = [OnPaste p])) \<and> isDoingComposition s1 = isDoingComposition s"
proof (cases "canUseTextData e")
  case True
  then obtain e1 pasted where "getTextData e = Inr (e1, pasted)"
    by (auto simp add: canUseTextData_def getTextData_def split: option.splits if_splits)
  with True show ?thesis
    by (simp add: paste_def fired_executePaste)
next
  case False
  then show ?thesis by (simp add: paste_def Let_def)
qed

lemma step_trace:
  "\<exists>t. fired (step env ev s) = fired s @ t
      \<and> noStartWhileComposing (isDoingComposition s) t
      \<and> composingAfter (isDoingComposition s) t = isDoingComposition (step env ev s)"
proof (cases ev)
  case (Keydown e)
  then show ?thesis by (simp add: keydown_def Let_def fire_def)
next
  case (Keyup e)
  then show ?thesis by (simp add: keyup_def fire_def)
next
  case (Compositionstart e)
  then show ?thesis by (simp add: compositionstart_def Let_def fire_def)
next
  case (Compositionupdate e)
  then show ?thesis by (simp add: compositionupdate_def Let_def fire_def)
next
  case (Compositionend e)
  then show ?thesis by (simp add: compositionend_def Let_def fire_def)
next
  case Input
  then show ?thesis by (simp add: input_def Let_def fire_def executePaste_def)
next
  case (Cut host e)
  then show ?thesis using step_Cut [of env host e s] by simp
next
  case (Copy host e)
  then show ?thesis using ensureClipboard_ok [of env host e s]
    by (auto simp add: copy_def afterListener_def)
next
  case (PasteEvent e)
  then show ?thesis using paste_ok [of env e s]
    by (auto simp add: afterListener_def)
next
  case Timeout
  then show ?thesis by (simp add: onTimeout_def fire_def)
next
  case (PlatformWrites w)
  then show ?thesis by simp
next
  case (SetStrategy strategy)
  then show ?thesis by (simp add: setStrategy_def)
next
  case (SetHasFocus isFocused)
  then show ?thesis by (simp add: setHasFocus_def Let_def)
next
  case (SetCursorSelections primary secondary)
  then show ?thesis by (simp add: setCursorSelections_def)
next
  case FocusTextArea
  then show ?thesis by (simp add: focusTextArea_def)
qed

lemma run_trace:
  "\<exists>t. fired (run env evs s) = fired s @ t
      \<and> noStartWhileComposing (isDoingComposition s) t"
proof -
  have "\<exists>t. fired (run env evs s) = fired s @ t
      \<and> noStartWhileComposing (isDoingComposition s) t
      \<and> composingAfter (isDoingComposition s) t = isDoingComposition (run env evs s)"
  proof (induction evs arbitrary: s)
    case Nil
    then show ?case by simp
  next
    case (Cons ev evs)
    obtain t1 where t1: "fired (step env ev s) = fired s @ t1"
      "noStartWhileComposing (isDoingComposition s) t1"
      "composingAfter (isDoingComposition s) t1 = isDoingComposition (step env ev s)"
      using step_trace by blast
    obtain t2 where t2: "fired (run env evs (step env ev s)) = fired (step env ev s) @ t2"
      "noStartWhileComposing (isDoingComposition (step env ev s)) t2"
      "composingAfter (isDoingComposition (step env ev s)) t2
         = isDoingComposition (run env evs (step env ev s))"
      using Cons.IH by blast
    have "fired (run env (ev # evs) s) = fired s @ (t1 @ t2)"
      using t1 t2 by simp
    moreover have "noStartWhileComposing (isDoingComposition s) (t1 @ t2)"
      using t1 t2 by (simp add: noStartWhileComposing_append)
    moreover have "composingAfter (isDoingComposition s) (t1 @ t2)
         = isDoingComposition (run env (ev # evs) s)"
      using t1 t2 by (simp add: composingAfter_append)
    ultimately show ?case by blast
  qed
  then show ?thesis by blast
qed

lemma fired_constructor: "fired (constructor env strategy w) = []"
  by (simp add: constructor_def)

lemma isDoingComposition_constructor: "\<not> isDoingComposition (constructor env strategy w)"
  by (simp add: constructor_def)

text \<open>
  Claim C9. A \<open>compositionstart\<close> event that arrives while the handler is composing
  leaves the handler exactly as it was: no snapshot reset, no write to the textarea, still
  composing, nothing fired. Hence in whatever any run of events, timer ticks, platform
  writes and method calls fires, from any handler state and in particular from a newly
  constructed handler, no \<open>onCompositionStart\<close> comes between an
  \<open>onCompositionStart\<close> and the next \<open>onCompositionEnd\<close>.
\<close>

theorem compositionstart_ignored_while_composing:
  "(isDoingComposition s \<longrightarrow> compositionstart env e s = s)
   \<and> noStartWhileComposing (isDoingComposition s) (firedBy env evs s)
   \<and> noStartWhileComposing False (fired (run env evs (constructor env strategy w)))"
proof -
  have 1: "isDoingComposition s \<longrightarrow> compositionstart env e s = s"
    by (simp add: compositionstart_def)
  obtain t where t: "fired (run env evs s) = fired s @ t"
    "noStartWhileComposing (isDoingComposition s) t"
    using run_trace by blast
  have 2: "noStartWhileComposing (isDoingComposition s) (firedBy env evs s)"
    using t by (simp add: firedBy_def)
  obtain t' where t': "fired (run env evs (constructor env strategy w))
       = fired (constructor env strategy w) @ t'"
    "noStartWhileComposing (isDoingComposition (constructor env strategy w)) t'"
    using run_trace by blast
  have 3: "noStartWhileComposing False (fired (run env evs (constructor env strategy w)))"
    using t' by (simp add: fired_constructor isDoingComposition_constructor)
  from 1 2 3 show ?thesis by blast
qed

text \<open>
  Two \<open>compositionstart\<close> events in a row fire one \<open>onCompositionStart\<close>; after the
  \<open>compositionend\<close> the next one fires again.
\<close>

theorem compositionstart_ignored_while_composing_witness:
  "isDoingComposition (idleHandler\<lparr>isDoingComposition := True\<rparr>)
   \<and> compositionstart sampleEnv \<lparr>data = [], localeTag = None\<rparr> (idleHandler\<lparr>isDoingComposition := True\<rparr>)
       = idleHandler\<lparr>isDoingComposition := True\<rparr>
   \<and> firedBy sampleEnv
        [Compositionstart \<lparr>data = [], localeTag = None\<rparr>,
         Compositionstart \<lparr>data = [], localeTag = None\<rparr>,
         Compositionend \<lparr>data = [0x308F], localeTag = None\<rparr>,
         Compositionstart \<lparr>data = [], localeTag = None\<rparr>] idleHandler
       = [OnCompositionStart, OnType \<lparr>typedText = [0x308F], replaceCharCnt = 0\<rparr>,
          OnCompositionEnd, OnCompositionStart]
   \<and> noStartWhileComposing False
        (firedBy sampleEnv
          [Compositionstart \<lparr>data = [], localeTag = None\<rparr>,
           Compositionstart \<lparr>data = [], localeTag = None\<rparr>,
           Compositionend \<lparr>data = [0x308F], localeTag = None\<rparr>,
           Compositionstart \<lparr>data = [], localeTag = None\<rparr>] idleHandler)"
proof -
  let ?e = "\<lparr>data = [], localeTag = None\<rparr>"
  let ?evs = "[Compositionstart ?e, Compositionstart ?e,
         Compositionend \<lparr>data = [0x308F], localeTag = None\<rparr>, Compositionstart ?e]"
  note a = compositionstart_ignored_while_composing
    [where s = "idleHandler\<lparr>isDoingComposition := True\<rparr>" and env = sampleEnv and e = ?e]
  note b = compositionstart_ignored_while_composing
    [where s = idleHandler and env = sampleEnv and evs = ?evs]
  have a': "compositionstart sampleEnv ?e (idleHandler\<lparr>isDoingComposition := True\<rparr>)
       = idleHandler\<lparr>isDoingComposition := True\<rparr>"
    using a by simp
  have b': "noStartWhileComposing False (firedBy sampleEnv ?evs idleHandler)"
    using b by (simp add: idleHandler_def)
  have c': "firedBy sampleEnv ?evs idleHandler
       = [OnCompositionStart, OnType \<lparr>typedText = [0x308F], replaceCharCnt = 0\<rparr>,
          OnCompositionEnd, OnCompositionStart]"
    by (simp add: firedBy_def compositionstart_def compositionend_def Let_def fire_def
        sample_defs widget_defs)
  from a' b' c' show ?thesis by simp
qed

text \<open>
  Claim C10. Every \<open>compositionend\<close> event reconciles the snapshot and fires \<open>onType\<close>
  with the resulting diff, composing or not: from the textarea on Edge or IE with the locale
  \<open>ja\<close>, from the event's text otherwise. The reconciled snapshot is stored, and on Edge,
  IE or Chrome it is replaced once more by a snapshot read from the textarea; the textarea
  itself is not written. \<open>onCompositionEnd\<close> follows only if the handler was composing.
  So a \<open>compositionend\<close> that arrives while the handler is not composing performs the
  reconciliation and fires exactly the \<open>onType\<close>, no \<open>onCompositionEnd\<close>, and the
  handler is still not composing afterwards.
\<close>

theorem compositionend_fires_type_always:
  "fired (compositionend env e s)
     = fired s
       @ [OnType (if isEdgeOrIE env \<and> localeTag e = Some ''ja''
                  then deduceInput (fromTextArea (textAreaState s) (textArea s))
                  else updateComposition env (fromText env (textAreaState s) (data e)))]
       @ (if isDoingComposition s then [OnCompositionEnd] else [])
   \<and> \<not> isDoingComposition (compositionend env e s)
   \<and> textAreaState (compositionend env e s)
     = (let reconciled =
              (if isEdgeOrIE env \<and> localeTag e = Some ''ja''
               then fromTextArea (textAreaState s) (textArea s)
               else fromText env (textAreaState s) (data e))
        in if isEdgeOrIE env \<or> isChrome env
           then fromTextArea reconciled (textArea s) else reconciled)
   \<and> textArea (compositionend env e s) = textArea s
   \<and> nextCommand (compositionend env e s) = nextCommand s"
  by (simp add: compositionend_def Let_def fire_def)

text \<open>
  An idle handler with an empty snapshot, on a platform with every flag off, receives a
  \<open>compositionend\<close> with the text \<open>a\<close>: one \<open>onType\<close>, no \<open>onCompositionEnd\<close>,
  still idle, and the snapshot now holds \<open>a\<close>. On a composing handler the same event
  fires both. On Chrome the stored snapshot is the one read from the textarea afterwards;
  on Edge or IE with the locale \<open>ja\<close> the diff comes from the textarea.
\<close>

theorem compositionend_fires_type_always_witness:
  "fired (compositionend sampleEnv \<lparr>data = [0x61], localeTag = None\<rparr> idleHandler)
     = [OnType \<lparr>typedText = [0x61], replaceCharCnt = 0\<rparr>]
   \<and> \<not> isDoingComposition (compositionend sampleEnv \<lparr>data = [0x61], localeTag = None\<rparr> idleHandler)
   \<and> fired (compositionend sampleEnv \<lparr>data = [0x61], localeTag = None\<rparr>
              (idleHandler\<lparr>isDoingComposition := True\<rparr>))
     = [OnType \<lparr>typedText = [0x61], replaceCharCnt = 0\<rparr>, OnCompositionEnd]
   \<and> textAreaState idleHandler
     = \<lparr>previousValue = [], stateValue = [], selectionStart = 0, selectionEnd = 0\<rparr>
   \<and> textAreaState (compositionend sampleEnv \<lparr>data = [0x61], localeTag = None\<rparr> idleHandler)
     = \<lparr>previousValue = [], stateValue = [0x61], selectionStart = 0, selectionEnd = 1\<rparr>
   \<and> textAreaState
       (compositionend (sampleEnv\<lparr>isChrome := True\<rparr>) \<lparr>data = [0x61], localeTag = None\<rparr>
          (idleHandler\<lparr>textArea := \<lparr>domValue = [0x61, 0x62], domSelectionStart = 2,
                                     domSelectionEnd = 2, domIsActiveElement = True\<rparr>\<rparr>))
     = \<lparr>previousValue = [0x61], stateValue = [0x61, 0x62], selectionStart = 2, selectionEnd = 2\<rparr>
   \<and> fired
       (compositionend (sampleEnv\<lparr>isEdgeOrIE := True\<rparr>) \<lparr>data = [0x61], localeTag = Some ''ja''\<rparr>
          (idleHandler\<lparr>textArea := \<lparr>domValue = [0x61, 0x62], domSelectionStart = 2,
                                     domSelectionEnd = 2, domIsActiveElement = True\<rparr>\<rparr>))
     = [OnType \<lparr>typedText = [0x61, 0x62], replaceCharCnt = 0\<rparr>]"
proof -
  let ?e = "\<lparr>data = [0x61], localeTag = None\<rparr>"
  let ?ja = "\<lparr>data = [0x61], localeTag = Some ''ja''\<rparr>"
  let ?s = "idleHandler\<lparr>textArea := \<lparr>domValue = [0x61, 0x62], domSelectionStart = 2,
                                     domSelectionEnd = 2, domIsActiveElement = True\<rparr>\<rparr>"
  note a = compositionend_fires_type_always [where env = sampleEnv and e = ?e and s = idleHandler]
  note b = compositionend_fires_type_always
    [where env = sampleEnv and e = ?e and s = "idleHandler\<lparr>isDoingComposition := True\<rparr>"]
  note c = compositionend_fires_type_always
    [where env = "sampleEnv\<lparr>isChrome := True\<rparr>" and e = ?e and s = ?s]
  note d = compositionend_fires_type_always
    [where env = "sampleEnv\<lparr>isEdgeOrIE := True\<rparr>" and e = ?ja and s = ?s]
  have a': "fired (compositionend sampleEnv ?e idleHandler)
       = [OnType \<lparr>typedText = [0x61], replaceCharCnt = 0\<rparr>]
     \<and> \<not> isDoingComposition (compositionend sampleEnv ?e idleHandler)
     \<and> textAreaState (compositionend sampleEnv ?e idleHandler)
       = \<lparr>previousValue = [], stateValue = [0x61], selectionStart = 0, selectionEnd = 1\<rparr>"
    using a by (simp add: sample_defs)
  have b': "fired (compositionend sampleEnv ?e (idleHandler\<lparr>isDoingComposition := True\<rparr>))
       = [OnType \<lparr>typedText = [0x61], replaceCharCnt = 0\<rparr>, OnCompositionEnd]"
    using b by (simp add: sample_defs)
  have c': "textAreaState (compositionend (sampleEnv\<lparr>isChrome := True\<rparr>) ?e ?s)
       = \<lparr>previousValue = [0x61], stateValue = [0x61, 0x62], selectionStart = 2, selectionEnd = 2\<rparr>"
    using c by (simp add: sample_defs handler_defs)
  have d': "fired (compositionend (sampleEnv\<lparr>isEdgeOrIE := True\<rparr>) ?ja ?s)
       = [OnType \<lparr>typedText = [0x61, 0x62], replaceCharCnt = 0\<rparr>]"
    using d by (simp add: sample_defs handler_defs)
  have i: "textAreaState idleHandler
     = \<lparr>previousValue = [], stateValue = [], selectionStart = 0, selectionEnd = 0\<rparr>"
    by (simp add: sample_defs)
  from a' b' c' d' i show ?thesis by blast
qed

section \<open>The clipboard\<close>

text \<open>
  The host's plain text has exactly 65536 code units, the platform is not Edge or IE and
  \<open>forceCopyWithSyntaxHighlighting\<close> is off: the length does not exceed 65536, and still
  the copy writes \<open>text/plain\<close> only and no \<open>text/html\<close>.
\<close>

theorem rich_text_at_threshold_counterexample:
  "\<not> isEdgeOrIE sampleEnv \<and> \<not> forceCopyWithSyntaxHighlighting sampleEnv
   \<and> \<not> 65536 < length (replicate 65536 (0x61 :: 16 word))
   \<and> (case copy sampleEnv \<lparr>getPlainTextToCopy = replicate 65536 0x61, getHTMLToCopy = [0x3C, 0x62, 0x3E]\<rparr>
             (eventClipboard Map.empty) idleHandler of
        Inl err \<Rightarrow> False
      | Inr (e1, s1) \<Rightarrow>
          (case clipboardData e1 of
             None \<Rightarrow> False
           | Some d1 \<Rightarrow> d1 ''text/plain'' = Some (replicate 65536 0x61) \<and> d1 ''text/html'' = None))"
  by (simp add: copy_def ensureClipboardGetsEditorSelection_def canUseTextData_def
      setTextData_def Let_def sampleEnv_def eventClipboard_def setData_def)

text \<open>
  Claim C7, as amended. On every copy or cut whose event has clipboard data of its own,
  the plain text is written as \<open>text/plain\<close>, and the host's HTML is written as
  \<open>text/html\<close> exactly when the platform is not Edge or IE and either the plain text is
  shorter than 65536 code units or \<open>forceCopyWithSyntaxHighlighting\<close> is set. So the HTML
  is left out on Edge or IE always, and elsewhere when the plain text has 65536 code units
  or more and the flag is off.
\<close>

theorem rich_text_gate:
  assumes "clipboardData e = Some d"
  shows "copy env host e s
     = Inr (e\<lparr>clipboardData :=
               Some (if \<not> isEdgeOrIE env
                        \<and> (length (getPlainTextToCopy host) < 65536 \<or> forceCopyWithSyntaxHighlighting env)
                     then setData (setData d ''text/plain'' (getPlainTextToCopy host))
                            ''text/html'' (getHTMLToCopy host)
                     else setData d ''text/plain'' (getPlainTextToCopy host)),
             defaultPrevented := True\<rparr>, s)
   \<and> cut env host e s
     = Inr (e\<lparr>clipboardData :=
               Some (if \<not> isEdgeOrIE env
                        \<and> (length (getPlainTextToCopy host) < 65536 \<or> forceCopyWithSyntaxHighlighting env)
                     then setData (setData d ''text/plain'' (getPlainTextToCopy host))
                            ''text/html'' (getHTMLToCopy host)
                     else setData d ''text/plain'' (getPlainTextToCopy host)),
             defaultPrevented := True\<rparr>, schedule s)"
  using assms
  by (simp add: copy_def cut_def ensureClipboardGetsEditorSelection_def canUseTextData_def
      setTextData_def Let_def)

text \<open>
  A short text is copied with its HTML; on Edge or IE without; a text of 65536 code units
  with the flag set is copied with its HTML.
\<close>

theorem rich_text_gate_witness:
  "copy sampleEnv sampleHost (eventClipboard Map.empty) idleHandler
     = Inr ((eventClipboard Map.empty)
              \<lparr>clipboardData := Some (Map.empty(''text/plain'' \<mapsto> [0x68, 0x69],
                                                 ''text/html'' \<mapsto> [0x3C, 0x62, 0x3E])),
               defaultPrevented := True\<rparr>, idleHandler)
   \<and> copy (sampleEnv\<lparr>isEdgeOrIE := True\<rparr>) sampleHost (eventClipboard Map.empty) idleHandler
     = Inr ((eventClipboard Map.empty)
              \<lparr>clipboardData := Some (Map.empty(''text/plain'' \<mapsto> [0x68, 0x69])),
               defaultPrevented := True\<rparr>, idleHandler)
   \<and> copy (sampleEnv\<lparr>forceCopyWithSyntaxHighlighting := True\<rparr>)
        \<lparr>getPlainTextToCopy = replicate 65536 0x61, getHTMLToCopy = [0x3C, 0x62, 0x3E]\<rparr>
        (eventClipboard Map.empty) idleHandler
     = Inr ((eventClipboard Map.empty)
              \<lparr>clipboardData := Some (Map.empty(''text/plain'' \<mapsto> replicate 65536 0x61,
                                                 ''text/html'' \<mapsto> [0x3C, 0x62, 0x3E])),
               defaultPrevented := True\<rparr>, idleHandler)"
proof -
  have h: "clipboardData (eventClipboard Map.empty) = Some Map.empty"
    by (simp add: eventClipboard_def)
  note a = rich_text_gate [OF h, of sampleEnv sampleHost idleHandler]
  note b = rich_text_gate [OF h, of "sampleEnv\<lparr>isEdgeOrIE := True\<rparr>" sampleHost idleHandler]
  note c = rich_text_gate [OF h, of "sampleEnv\<lparr>forceCopyWithSyntaxHighlighting := True\<rparr>"
      "\<lparr>getPlainTextToCopy = replicate 65536 0x61, getHTMLToCopy = [0x3C, 0x62, 0x3E]\<rparr>" idleHandler]
  have a': "copy sampleEnv sampleHost (eventClipboard Map.empty) idleHandler
     = Inr ((eventClipboard Map.empty)
              \<lparr>clipboardData := Some (Map.empty(''text/plain'' \<mapsto> [0x68, 0x69],
                                                 ''text/html'' \<mapsto> [0x3C, 0x62, 0x3E])),
               defaultPrevented := True\<rparr>, idleHandler)"
    using a by (simp add: sampleEnv_def sampleHost_def setData_def)
  have b': "copy (sampleEnv\<lparr>isEdgeOrIE := True\<rparr>) sampleHost (eventClipboard Map.empty) idleHandler
     = Inr ((eventClipboard Map.empty)
              \<lparr>clipboardData := Some (Map.empty(''text/plain'' \<mapsto> [0x68, 0x69])),
               defaultPrevented := True\<rparr>, idleHandler)"
    using b by (simp add: sampleEnv_def sampleHost_def setData_def)
  have c': "copy (sampleEnv\<lparr>forceCopyWithSyntaxHighlighting := True\<rparr>)
        \<lparr>getPlainTextToCopy = replicate 65536 0x61, getHTMLToCopy = [0x3C, 0x62, 0x3E]\<rparr>
        (eventClipboard Map.empty) idleHandler
     = Inr ((eventClipboard Map.empty)
              \<lparr>clipboardData := Some (Map.empty(''text/plain'' \<mapsto> replicate 65536 0x61,
                                                 ''text/html'' \<mapsto> [0x3C, 0x62, 0x3E])),
               defaultPrevented := True\<rparr>, idleHandler)"
    using c by (simp add: sampleEnv_def setData_def)
  from a' b' c' show ?thesis by blast
qed

text \<open>
  Claim C8. \<open>getTextData\<close> reads \<open>text/plain\<close> from the event's clipboard data when
  the event has it; otherwise it reads \<open>Text\<close> from the legacy window clipboard when that
  exists; it fails with the error exactly when neither exists. When \<open>canUseTextData\<close>
  holds for the event it does not fail.
\<close>

theorem getTextData_prefers_event_data:
  "(clipboardData e = Some d \<longrightarrow>
      getTextData e = Inr (e\<lparr>defaultPrevented := True\<rparr>, getData d ''text/plain''))
   \<and> (clipboardData e = None \<and> windowClipboardData e = Some w \<longrightarrow>
      getTextData e = Inr (e\<lparr>defaultPrevented := True\<rparr>, getData w ''Text''))
   \<and> ((\<exists>err. getTextData e = Inl err) \<longleftrightarrow> (clipboardData e = None \<and> windowClipboardData e = None))
   \<and> (canUseTextData e \<longrightarrow> (\<forall>err. getTextData e \<noteq> Inl err))"
  by (auto simp add: getTextData_def canUseTextData_def split: option.splits)

text \<open>
  An event with clipboard data, one with the legacy clipboard only, and one with neither.
\<close>

theorem getTextData_prefers_event_data_witness:
  "getTextData (eventClipboard (Map.empty(''text/plain'' \<mapsto> [0x68, 0x69])))
     = Inr ((eventClipboard (Map.empty(''text/plain'' \<mapsto> [0x68, 0x69])))\<lparr>defaultPrevented := True\<rparr>,
            [0x68, 0x69])
   \<and> getTextData (legacyClipboard (Map.empty(''Text'' \<mapsto> [0x68, 0x69])))
     = Inr ((legacyClipboard (Map.empty(''Text'' \<mapsto> [0x68, 0x69])))\<lparr>defaultPrevented := True\<rparr>,
            [0x68, 0x69])
   \<and> (\<exists>err. getTextData noClipboard = Inl err)
   \<and> canUseTextData (legacyClipboard (Map.empty(''Text'' \<mapsto> [0x68, 0x69])))
   \<and> (\<forall>err. getTextData (legacyClipboard (Map.empty(''Text'' \<mapsto> [0x68, 0x69]))) \<noteq> Inl err)"
proof -
  note a = getTextData_prefers_event_data
    [where e = "eventClipboard (Map.empty(''text/plain'' \<mapsto> [0x68, 0x69]))"
       and d = "Map.empty(''text/plain'' \<mapsto> [0x68, 0x69])"]
  note b = getTextData_prefers_event_data
    [where e = "legacyClipboard (Map.empty(''Text'' \<mapsto> [0x68, 0x69]))"
       and w = "Map.empty(''Text'' \<mapsto> [0x68, 0x69])"]
  note c = getTextData_prefers_event_data [where e = noClipboard]
  have a': "getTextData (eventClipboard (Map.empty(''text/plain'' \<mapsto> [0x68, 0x69])))
     = Inr ((eventClipboard (Map.empty(''text/plain'' \<mapsto> [0x68, 0x69])))\<lparr>defaultPrevented := True\<rparr>,
            [0x68, 0x69])"
    using a by (simp add: eventClipboard_def getData_def)
  have can: "canUseTextData (legacyClipboard (Map.empty(''Text'' \<mapsto> [0x68, 0x69])))"
    by (simp add: canUseTextData_def legacyClipboard_def)
  have b': "getTextData (legacyClipboard (Map.empty(''Text'' \<mapsto> [0x68, 0x69])))
     = Inr ((legacyClipboard (Map.empty(''Text'' \<mapsto> [0x68, 0x69])))\<lparr>defaultPrevented := True\<rparr>,
            [0x68, 0x69])
     \<and> (\<forall>err. getTextData (legacyClipboard (Map.empty(''Text'' \<mapsto> [0x68, 0x69]))) \<noteq> Inl err)"
    using b can by (simp add: legacyClipboard_def getData_def)
  have c': "\<exists>err. getTextData noClipboard = Inl err"
    using c by (simp add: noClipboard_def)
  from a' b' c' can show ?thesis by blast
qed

end
